theory Spec2Isabelle
  imports Complex_Main "HOL-Library.Multiset" "HOL-Library.Option_ord"
begin

section \<open>Data model of app.py\<close>

text \<open>
  The application is a Flask program: view functions that read a request, the session
  cookie, two MongoDB collections, an uploads directory and two optional Keras models.
  Each view is embedded as a function from the state before the call to the response and
  the state after it, from the point where Flask has matched the route and calls the
  (decorated) view function.

  Conventions of the embedding:
  \<^item> A Python float is the real number it denotes. The one float operation of the
    application, the product \<open>float(np.max(preds))*100\<close>, is rounded to the nearest
    double (ties to even), as the interpreter does. Entries of a prediction vector are
    float values, so reading one as a Python float is exact.
  \<^item> A collection is the list of its documents in insertion order. A date is stored with
    millisecond precision, as BSON keeps it. Outages of the database are not modelled:
    \<open>insert_one\<close>, \<open>find_one\<close> and \<open>find\<close> always return.
  \<^item> The file system is the set of paths that name an existing directory, the store of
    regular files, and the faults it may raise on its own account when a path is opened
    for writing (permissions, quota, length limits). \<open>file.save\<close> raises when the
    directory of the path does not exist; the application creates no directory other
    than \<open>UPLOAD_FOLDER\<close>.
  \<^item> A loaded Keras model is the function from the content of the image file to the first
    row of \<open>model.predict\<close>, or to a fault when \<open>load_img\<close>, \<open>img_to_array\<close> or
    \<open>predict\<close> raises.
  \<^item> The application catches no exception, so a fault raised during a view ends the view
    as an unhandled error, with the state as it was at the raise.
  \<^item> \<open>datetime.datetime.utcnow()\<close> is an input of the view: the value of
    \<open>int(utcnow().timestamp()*1000)\<close> is passed as \<open>ms\<close> and the later reading stored in
    a document as \<open>now\<close> (microseconds since the epoch).
\<close>

datatype fault =
    FileNotFoundError
  | IsADirectoryError
  | OSError
  | ValueError
  | UnidentifiedImageError
  | AttributeError

datatype json =
    JNull
  | JStr string
  | JNum real
  | JTime nat
  | JOid nat
  | JArr "json list"
  | JObj "(string \<times> json) list"

type_synonym doc = "(string \<times> json) list"

text \<open>A user document, as \<open>register\<close> writes it.\<close>

record user =
  fullname :: string
  email :: string
  password :: string
  registered_at :: nat

text \<open>\<open>session\<close>: the key \<open>"user"\<close> (absent, or the dict with email and fullname) and
  the messages queued by \<open>flash(message, category)\<close>.\<close>

record session_user =
  su_email :: string
  su_fullname :: string

record session =
  user_key :: "session_user option"
  flashes :: "(string \<times> string) list"

record file_storage =
  filename :: string
  content :: string

datatype http_method = GET | POST

record request =
  req_method :: http_method
  form :: "string \<rightharpoonup> string"
  files :: "string \<rightharpoonup> file_storage"

text \<open>\<open>dirs\<close> holds every path that names an existing directory, \<open>uploads\<close> the
  content of the regular files, \<open>io_fault\<close> the fault, if any, that the operating system
  raises on its own account when the path is opened for writing.\<close>

record state =
  users_collection :: "user list"
  scans_collection :: "doc list"
  dirs :: "string set"
  uploads :: "string \<rightharpoonup> string"
  io_fault :: "string \<Rightarrow> fault option"
  sess :: session

type_synonym keras_model = "string \<Rightarrow> fault + real list"

text \<open>The module-level configuration fixed at start-up: the two models (\<open>None\<close> when not
  loaded), the class names read from classes.txt and \<open>UPLOAD_FOLDER\<close>.\<close>

record env =
  leaf_model :: "keras_model option"
  skin_model :: "keras_model option"
  disease_classes :: "string list"
  upload_folder :: string

text \<open>werkzeug.security, taken as a parameter. \<open>generate_password_hash\<close> stands for the
  library function with the salt it draws in this call; \<open>check_password_hash\<close> receives
  whatever \<open>request.form.get("password")\<close> returned, also \<open>None\<close>.\<close>

record security =
  generate_password_hash :: "string \<Rightarrow> string"
  check_password_hash :: "string \<Rightarrow> string option \<Rightarrow> fault + bool"

datatype response =
    Rendered string
  | Redirect string
  | Json json nat
  | Unhandled fault

section \<open>Static tables\<close>

definition leaf_class_names :: "string list" where
  "leaf_class_names =
     [''Aloevera'', ''Amruthaballi'', ''Arali'', ''Bhrami'', ''Curry leaves'', ''Doddpathre'',
      ''Hibiscus'', ''Mint'', ''Neem'', ''Tulsi'', ''Turmeric'', ''Unknown'']"

definition leaf_info :: "(string \<times> (string \<times> string list)) list" where
  "leaf_info =
     [(''Aloevera'', (''Soothes burns, reduces scars, hydrates skin, and promotes wound healing.'',
         [''Eczema'', ''Psoriasis'', ''Acne'', ''Skin ulcers'', ''Sunburn'', ''Dry skin''])),
      (''Amruthaballi'', (''Detoxifies blood and reduces skin allergies.'',
         [''Skin rashes'', ''Skin allergies''])),
      (''Tulsi'', (''Has antibacterial properties for skin health.'',
         [''Acne'', ''Skin infections''])),
      (''Neem'', (''Powerful antimicrobial, treats many skin conditions.'',
         [''Eczema'', ''Acne'', ''Psoriasis'', ''Ringworm'', ''Scabies'', ''Fungal infections''])),
      (''Mint'', (''Cools and refreshes skin.'', [''Acne'', ''Skin irritation''])),
      (''Turmeric'', (''Natural anti-inflammatory for skin issues.'',
         [''Eczema'', ''Psoriasis'', ''Skin infections'', ''Wounds'', ''Acne scars''])),
      (''Ginger'', (''Improves skin elasticity and reduces inflammation.'',
         [''Inflammatory skin conditions'', ''Skin aging''])),
      (''Lemon'', (''Lightens pigmentation and reduces acne scars.'',
         [''Hyperpigmentation'', ''Acne scars'', ''Oily skin''])),
      (''Guava'', (''Improves skin texture and prevents premature aging.'',
         [''Skin aging'', ''Wrinkles''])),
      (''Henna'', (''Cools skin and treats fungal issues.'',
         [''Fungal skin infections'', ''Skin rashes'', ''Burns''])),
      (''Hibiscus'', (''Rejuvenates skin and reduces aging signs.'',
         [''Wrinkles'', ''Skin aging''])),
      (''Rose'', (''Improves skin glow and soothes irritation.'',
         [''Acne'', ''Dry skin'', ''Skin irritation''])),
      (''Ashoka'', (''Has properties for skin rejuvenation.'',
         [''Skin pigmentation'', ''Premature aging''])),
      (''Curry leaves'', (''Nourishes skin and prevents dryness.'', [''Dry skin''])),
      (''Arali'', (''Reduces inflammation, soothes rashes and promotes wound healing.'',
         [''Eczema'', ''Ringworm'', ''Minor Wounds''])),
      (''Doddpathre'', (''Soothes the skin and reduces itching, redness and microbial infections.'',
         [''Skin rashes'', ''Eczema'', ''Ringworm'']))]"

definition recommendations :: "(string \<times> string) list" where
  "recommendations =
     [(''acne'', ''Neem leaves act as a natural antibacterial agent...''),
      (''eczema'', ''Aloe vera and neem leaves help calm itching...''),
      (''psoriasis'', ''Neem and aloe vera leaves reduce scaling...''),
      (''ringworm'', ''Basil (Tulsi) and neem leaves possess antifungal properties...''),
      (''unknown'', ''No recommendation.'')]"

section \<open>Helpers\<close>

text \<open>\<open>str.lower()\<close> on the ASCII letters; \<open>str.rsplit(sep, 1)\<close>.\<close>

definition lower_char :: "char \<Rightarrow> char" where
  "lower_char c =
     (case map_of (zip ''ABCDEFGHIJKLMNOPQRSTUVWXYZ'' ''abcdefghijklmnopqrstuvwxyz'') c of
        Some l \<Rightarrow> l
      | None \<Rightarrow> c)"

definition lower :: "string \<Rightarrow> string" where
  "lower s = map lower_char s"

definition rsplit1 :: "char \<Rightarrow> string \<Rightarrow> string list" where
  "rsplit1 sep s =
     (if sep \<in> set s
      then [rev (tl (dropWhile (\<lambda>c. c \<noteq> sep) (rev s))), rev (takeWhile (\<lambda>c. c \<noteq> sep) (rev s))]
      else [s])"

text \<open>\<open>allowed_file\<close>, read for its truth value (the source returns the falsy operand
  itself). The index 1 is only read when the name holds a dot.\<close>

definition allowed_file :: "string \<Rightarrow> bool" where
  "allowed_file fname \<longleftrightarrow>
     fname \<noteq> [] \<and> CHR ''.'' \<in> set fname \<and>
     lower (rsplit1 (CHR ''.'') fname ! 1) \<in> {''png'', ''jpg'', ''jpeg''}"

text \<open>Rounding of a real to the nearest double, ties to even. \<open>binade x\<close> is the
  exponent \<open>e\<close> with \<open>2^e \<le> x < 2^(e+1)\<close> for positive \<open>x\<close>; below \<open>2^-1022\<close> the
  spacing of the subnormal numbers applies. Overflow to infinity is not modelled.\<close>

definition pow2 :: "int \<Rightarrow> real" where
  "pow2 k = (if 0 \<le> k then 2 ^ nat k else 1 / 2 ^ nat (- k))"

fun bit_length :: "nat \<Rightarrow> nat" where
  "bit_length n = (if n = 0 then 0 else Suc (bit_length (n div 2)))"

definition binade :: "real \<Rightarrow> int" where
  "binade x =
     (if 1 \<le> x then int (bit_length (nat \<lfloor>x\<rfloor>)) - 1
      else - int (bit_length (nat \<lceil>1 / x\<rceil> - 1)))"

definition round_half_even :: "real \<Rightarrow> int" where
  "round_half_even x =
     (let n = \<lfloor>x\<rfloor>; r = x - of_int n
      in if r < 1 / 2 then n else if 1 / 2 < r then n + 1 else if even n then n else n + 1)"

definition round_double :: "real \<Rightarrow> real" where
  "round_double x =
     (if x = 0 then 0
      else (let e = max (binade \<bar>x\<bar>) (- 1022); ulp = pow2 (e - 52)
            in sgn x * of_int (round_half_even (\<bar>x\<bar> / ulp)) * ulp))"

text \<open>\<open>np.argmax\<close> (the first index of the largest entry) and \<open>np.max\<close>; both raise
  ValueError on an empty vector.\<close>

fun argmax_from :: "nat \<Rightarrow> real \<Rightarrow> nat \<Rightarrow> real list \<Rightarrow> nat" where
  "argmax_from best bv i [] = best"
| "argmax_from best bv i (x # xs) =
     (if bv < x then argmax_from i x (Suc i) xs else argmax_from best bv (Suc i) xs)"

definition np_argmax :: "real list \<Rightarrow> fault + nat" where
  "np_argmax preds = (case preds of [] \<Rightarrow> Inl ValueError | x # xs \<Rightarrow> Inr (argmax_from 0 x 1 xs))"

definition np_max :: "real list \<Rightarrow> fault + real" where
  "np_max preds = (case preds of [] \<Rightarrow> Inl ValueError | x # xs \<Rightarrow> Inr (fold max xs x))"

text \<open>The lines from \<open>load_img\<close> to \<open>model.predict(arr)[0]\<close>: read the file at the path and
  run the model on it.\<close>

definition run_model :: "keras_model \<Rightarrow> (string \<rightharpoonup> string) \<Rightarrow> string \<Rightarrow> fault + real list" where
  "run_model m fs filepath =
     (case fs filepath of None \<Rightarrow> Inl FileNotFoundError | Some bytes \<Rightarrow> m bytes)"

definition predict_leaf_image ::
  "env \<Rightarrow> (string \<rightharpoonup> string) \<Rightarrow> string \<Rightarrow> fault + (string \<times> real)" where
  "predict_leaf_image e fs filepath =
     (case leaf_model e of
        None \<Rightarrow> Inr (''Unknown'', 0)
      | Some m \<Rightarrow>
         (case run_model m fs filepath of
            Inl err \<Rightarrow> Inl err
          | Inr preds \<Rightarrow>
             (case np_argmax preds of
                Inl err \<Rightarrow> Inl err
              | Inr idx \<Rightarrow>
                 (case np_max preds of
                    Inl err \<Rightarrow> Inl err
                  | Inr mx \<Rightarrow>
                     (let conf = round_double (mx * 100);
                          name = (if idx < length leaf_class_names
                                  then leaf_class_names ! idx else ''Unknown'')
                      in if conf < 10 then Inr (''Not a Leaf'', conf) else Inr (name, conf))))))"

definition predict_skin_image ::
  "env \<Rightarrow> (string \<rightharpoonup> string) \<Rightarrow> string \<Rightarrow> fault + (string \<times> real)" where
  "predict_skin_image e fs filepath =
     (case skin_model e of
        None \<Rightarrow> Inr (''unknown'', 0)
      | Some m \<Rightarrow>
         if disease_classes e = [] then Inr (''unknown'', 0)
         else
          (case run_model m fs filepath of
             Inl err \<Rightarrow> Inl err
           | Inr preds \<Rightarrow>
              (case np_argmax preds of
                 Inl err \<Rightarrow> Inl err
               | Inr idx \<Rightarrow>
                  (case np_max preds of
                     Inl err \<Rightarrow> Inl err
                   | Inr conf \<Rightarrow>
                      (let pred = (if idx < length (disease_classes e)
                                   then disease_classes e ! idx else ''unknown'')
                       in if conf < 5 / 100 then Inr (''unknown'', 0) else Inr (pred, conf))))))"

section \<open>Session gate\<close>

definition flash :: "string \<Rightarrow> string \<Rightarrow> state \<Rightarrow> state" where
  "flash message category st =
     st\<lparr>sess := (sess st)\<lparr>flashes := flashes (sess st) @ [(category, message)]\<rparr>\<rparr>"

text \<open>The decorator: \<open>f\<close> is the view it wraps, already applied to its request.\<close>

definition login_required :: "(state \<Rightarrow> response \<times> state) \<Rightarrow> state \<Rightarrow> response \<times> state" where
  "login_required f st =
     (if user_key (sess st) = None
      then (Redirect ''login'', flash ''Please login first'' ''warning'' st)
      else f st)"

section \<open>Page views\<close>

definition scan_home :: "state \<Rightarrow> response \<times> state" where
  "scan_home = login_required (\<lambda>st. (Rendered ''scanning.html'', st))"

definition scan_leaf_page :: "state \<Rightarrow> response \<times> state" where
  "scan_leaf_page = login_required (\<lambda>st. (Rendered ''scan_leaf.html'', st))"

definition scan_skin_page :: "state \<Rightarrow> response \<times> state" where
  "scan_skin_page = login_required (\<lambda>st. (Rendered ''scan_skin.html'', st))"

section \<open>Credential store\<close>

text \<open>A \<open>datetime\<close> (microseconds) as the database stores it: in whole milliseconds.\<close>

definition bson_date :: "nat \<Rightarrow> nat" where
  "bson_date t = t div 1000 * 1000"

text \<open>Python's \<open>not s\<close> for a form value: \<open>None\<close> or the empty string.\<close>

definition falsy :: "string option \<Rightarrow> bool" where
  "falsy v \<longleftrightarrow> v = None \<or> v = Some []"

text \<open>\<open>users_collection.find_one({"email": email})\<close>: the first document with that email.\<close>

definition find_one :: "user list \<Rightarrow> string \<Rightarrow> user option" where
  "find_one coll em = List.find (\<lambda>u. email u = em) coll"

text \<open>\<open>the\<close> below is only applied to form values that passed the \<open>falsy\<close> test.\<close>

definition register :: "security \<Rightarrow> nat \<Rightarrow> request \<Rightarrow> state \<Rightarrow> response \<times> state" where
  "register sec now req st =
     (if req_method req = POST then
        (let fullname_v = form req ''fullname'';
             email_v = form req ''email'';
             password_v = form req ''password'';
             confirm = form req ''confirmPassword''
         in if falsy fullname_v \<or> falsy email_v \<or> falsy password_v
            then (Redirect ''register'', flash ''All fields required'' ''danger'' st)
            else if password_v \<noteq> confirm
            then (Redirect ''register'', flash ''Passwords do not match'' ''danger'' st)
            else if find_one (users_collection st) (the email_v) \<noteq> None
            then (Redirect ''register'', flash ''Email already registered'' ''warning'' st)
            else (Redirect ''login'',
                  flash ''Registration successful! Login now.'' ''success''
                    (st\<lparr>users_collection := users_collection st @
                         [\<lparr>fullname = the fullname_v,
                           email = the email_v,
                           password = generate_password_hash sec (the password_v),
                           registered_at = bson_date now\<rparr>]\<rparr>)))
      else (Rendered ''register.html'', st))"

text \<open>\<open>find_one({"email": None})\<close> matches no user document: every one has an email.\<close>

definition login :: "security \<Rightarrow> request \<Rightarrow> state \<Rightarrow> response \<times> state" where
  "login sec req st =
     (if req_method req = POST then
        (let email_v = form req ''email'';
             password_v = form req ''password'';
             found = (case email_v of None \<Rightarrow> None | Some em \<Rightarrow> find_one (users_collection st) em);
             invalid = (Redirect ''login'', flash ''Invalid credentials'' ''danger'' st)
         in case found of
              None \<Rightarrow> invalid
            | Some u \<Rightarrow>
               (case check_password_hash sec (password u) password_v of
                  Inl err \<Rightarrow> (Unhandled err, st)
                | Inr ok \<Rightarrow>
                   if ok
                   then (Redirect ''scan_home'',
                         flash (''Welcome '' @ (if fullname u \<noteq> [] then fullname u else the email_v))
                           ''success''
                           (st\<lparr>sess := (sess st)\<lparr>user_key :=
                                 Some \<lparr>su_email = the email_v, su_fullname = fullname u\<rparr>\<rparr>\<rparr>))
                   else invalid))
      else (Rendered ''login.html'', st))"

section \<open>Prediction endpoints\<close>

text \<open>\<open>str(n)\<close> of a natural number, and \<open>os.path.join\<close> of two components.\<close>

definition digit :: "nat \<Rightarrow> char" where
  "digit d = ''0123456789'' ! d"

fun str_nat :: "nat \<Rightarrow> string" where
  "str_nat n = (if n < 10 then [digit n] else str_nat (n div 10) @ [digit (n mod 10)])"

definition os_path_join :: "string \<Rightarrow> string \<Rightarrow> string" where
  "os_path_join a b =
     (if b \<noteq> [] \<and> hd b = CHR ''/'' then b
      else if a = [] \<or> last a = CHR ''/'' then a @ b
      else a @ ''/'' @ b)"

text \<open>\<open>insert_one\<close>: the driver adds an \<open>_id\<close> to a document that has none and encodes
  the values; a date loses its microseconds.\<close>

fun bson :: "json \<Rightarrow> json" where
  "bson (JTime t) = JTime (bson_date t)"
| "bson (JArr vs) = JArr (map bson vs)"
| "bson (JObj kvs) = JObj (map (\<lambda>kv. (fst kv, bson (snd kv))) kvs)"
| "bson v = v"

definition bson_doc :: "doc \<Rightarrow> doc" where
  "bson_doc d = map (\<lambda>kv. (fst kv, bson (snd kv))) d"

definition insert_one :: "doc list \<Rightarrow> doc \<Rightarrow> doc list" where
  "insert_one coll d =
     coll @ [bson_doc (if map_of d ''_id'' = None then (''_id'', JOid (length coll)) # d else d)]"

definition save_name :: "nat \<Rightarrow> string \<Rightarrow> string" where
  "save_name ms fname = str_nat ms @ ''_'' @ fname"

text \<open>\<open>os.path.dirname\<close>, and \<open>file.save(save_path)\<close>: the path is opened for writing
  and the content written. Opening raises on a NUL character in the path, on a directory
  part that does not exist and on a path that names a directory.\<close>

definition dirname :: "string \<Rightarrow> string" where
  "dirname p =
     (let head = rev (dropWhile (\<lambda>c. c \<noteq> CHR ''/'') (rev p))
      in if head \<noteq> [] \<and> (\<exists>c\<in>set head. c \<noteq> CHR ''/'')
         then rev (dropWhile (\<lambda>c. c = CHR ''/'') (rev head))
         else head)"

definition file_save :: "file_storage \<Rightarrow> string \<Rightarrow> state \<Rightarrow> fault + state" where
  "file_save file save_path st =
     (if CHR 0x00 \<in> set save_path then Inl ValueError
      else if dirname save_path \<noteq> [] \<and> dirname save_path \<notin> dirs st then Inl FileNotFoundError
      else if save_path \<in> dirs st then Inl IsADirectoryError
      else (case io_fault st save_path of
              Some err \<Rightarrow> Inl err
            | None \<Rightarrow> Inr (st\<lparr>uploads := (uploads st)(save_path \<mapsto> content file)\<rparr>)))"

definition leaf_scan_doc :: "string \<Rightarrow> string \<times> string list \<Rightarrow> real \<Rightarrow> string \<Rightarrow> string \<Rightarrow> nat \<Rightarrow> doc" where
  "leaf_scan_doc leaf_name info conf fname safe_name now =
     [(''type'', JStr ''leaf''), (''leaf_name'', JStr leaf_name), (''uses'', JStr (fst info)),
      (''diseases'', JArr (map JStr (snd info))), (''confidence'', JNum conf),
      (''filename'', JStr fname), (''saved_name'', JStr safe_name),
      (''timestamp'', JTime now)]"

definition predict_leaf_view :: "env \<Rightarrow> nat \<Rightarrow> nat \<Rightarrow> request \<Rightarrow> state \<Rightarrow> response \<times> state" where
  "predict_leaf_view e ms now req st =
     (case files req ''image'' of
        None \<Rightarrow> (Json (JObj [(''error'', JStr ''no file'')]) 400, st)
      | Some file \<Rightarrow>
         if filename file = [] \<or> \<not> allowed_file (filename file)
         then (Json (JObj [(''error'', JStr ''invalid file'')]) 400, st)
         else
          (let fname = filename file;
               safe_name = save_name ms fname;
               save_path = os_path_join (upload_folder e) safe_name
           in case file_save file save_path st of
                Inl err \<Rightarrow> (Unhandled err, st)
              | Inr st1 \<Rightarrow>
                 (case predict_leaf_image e (uploads st1) save_path of
                    Inl err \<Rightarrow> (Unhandled err, st1)
                  | Inr (leaf_name, conf) \<Rightarrow>
                     (let info = (case map_of leaf_info leaf_name of
                                    Some i \<Rightarrow> i | None \<Rightarrow> (''No info'', []))
                      in (Json (JObj [(''leaf_name'', JStr leaf_name), (''uses'', JStr (fst info)),
                                      (''diseases'', JArr (map JStr (snd info))),
                                      (''confidence'', JNum conf)]) 200,
                          st1\<lparr>scans_collection := insert_one (scans_collection st1)
                                 (leaf_scan_doc leaf_name info conf fname safe_name now)\<rparr>)))))"

definition predict_leaf :: "env \<Rightarrow> nat \<Rightarrow> nat \<Rightarrow> request \<Rightarrow> state \<Rightarrow> response \<times> state" where
  "predict_leaf e ms now req = login_required (predict_leaf_view e ms now req)"

definition skin_scan_doc :: "string \<Rightarrow> real \<Rightarrow> string \<Rightarrow> string \<Rightarrow> nat \<Rightarrow> doc" where
  "skin_scan_doc pred_class conf fname safe_name now =
     [(''type'', JStr ''skin''), (''predicted_class'', JStr pred_class),
      (''confidence'', JNum conf), (''filename'', JStr fname), (''saved_name'', JStr safe_name),
      (''timestamp'', JTime now)]"

definition predict_skin_view :: "env \<Rightarrow> nat \<Rightarrow> nat \<Rightarrow> request \<Rightarrow> state \<Rightarrow> response \<times> state" where
  "predict_skin_view e ms now req st =
     (case files req ''image'' of
        None \<Rightarrow> (Json (JObj [(''predicted_class'', JStr ''No image''), (''confidence'', JNum 0),
                              (''recommendation'', JStr ''N/A'')]) 200, st)
      | Some file \<Rightarrow>
          (let fname = filename file;
               safe_name = save_name ms fname;
               save_path = os_path_join (upload_folder e) safe_name
           in case file_save file save_path st of
                Inl err \<Rightarrow> (Unhandled err, st)
              | Inr st1 \<Rightarrow>
                 (case predict_skin_image e (uploads st1) save_path of
                    Inl err \<Rightarrow> (Unhandled err, st1)
                  | Inr (pred_class, conf) \<Rightarrow>
                     (let rec = (case map_of recommendations pred_class of
                                   Some r \<Rightarrow> r | None \<Rightarrow> ''No recommendation'')
                      in (Json (JObj [(''predicted_class'', JStr pred_class),
                                      (''confidence'', JNum conf),
                                      (''recommendation'', JStr rec)]) 200,
                          st1\<lparr>scans_collection := insert_one (scans_collection st1)
                                 (skin_scan_doc pred_class conf fname safe_name now)\<rparr>)))))"

definition predict_skin :: "env \<Rightarrow> nat \<Rightarrow> nat \<Rightarrow> request \<Rightarrow> state \<Rightarrow> response \<times> state" where
  "predict_skin e ms now req = login_required (predict_skin_view e ms now req)"

section \<open>Scan history\<close>

text \<open>The sort key of \<open>sort("timestamp", -1)\<close>: the date of the document; a document with
  no date under that key sorts below every dated one, so last in descending order. The
  database leaves the order of documents with equal dates open; \<open>sort_desc\<close> keeps them
  in insertion order.\<close>

definition timestamp_key :: "doc \<Rightarrow> nat option" where
  "timestamp_key d = (case map_of d ''timestamp'' of Some (JTime t) \<Rightarrow> Some t | _ \<Rightarrow> None)"

definition sort_desc :: "('a \<Rightarrow> 'k::linorder) \<Rightarrow> 'a list \<Rightarrow> 'a list" where
  "sort_desc f xs = rev (sort_key f (rev xs))"

text \<open>The projection \<open>{"_id": 0}\<close>.\<close>

definition without_id :: "doc \<Rightarrow> doc" where
  "without_id d = filter (\<lambda>kv. fst kv \<noteq> ''_id'') d"

text \<open>\<open>find({}, {"_id": 0}).sort("timestamp", -1).limit(n)\<close>.\<close>

definition find_sort_limit :: "doc list \<Rightarrow> nat \<Rightarrow> doc list" where
  "find_sort_limit coll n = map without_id (take n (sort_desc timestamp_key coll))"

definition get_scans_view :: "state \<Rightarrow> response \<times> state" where
  "get_scans_view st =
     (Json (JArr (map JObj (find_sort_limit (scans_collection st) 200))) 200, st)"

definition get_scans :: "state \<Rightarrow> response \<times> state" where
  "get_scans = login_required get_scans_view"

section \<open>The allow-list in the words of the specification\<close>

text \<open>A file name has an allowed extension when it ends in a dot followed by png, jpg or
  jpeg in any letter case, the extension being the text after the last dot.\<close>

definition has_allowed_extension :: "string \<Rightarrow> bool" where
  "has_allowed_extension fname \<longleftrightarrow>
     (\<exists>stem ext. fname = stem @ ''.'' @ ext \<and> CHR ''.'' \<notin> set ext \<and>
        lower ext \<in> {''png'', ''jpg'', ''jpeg''})"

section \<open>Example sites, requests and models\<close>

text \<open>Concrete inputs on which the theorems below are instantiated. On the example sites
  the uploads directory is the only directory below itself and the file system raises no
  fault of its own.\<close>

definition member_session :: session where
  "member_session = \<lparr>user_key = Some \<lparr>su_email = ''a@x.com'', su_fullname = ''A''\<rparr>, flashes = []\<rparr>"

definition anonymous_session :: session where
  "anonymous_session = \<lparr>user_key = None, flashes = []\<rparr>"

definition other_session :: session where
  "other_session = \<lparr>user_key = Some \<lparr>su_email = ''b@y.org'', su_fullname = ''B''\<rparr>, flashes = []\<rparr>"

definition toy_security :: security where
  "toy_security =
     \<lparr>generate_password_hash = (\<lambda>pw. ''toy$'' @ rev pw),
      check_password_hash =
        (\<lambda>pwhash pw. case pw of None \<Rightarrow> Inl AttributeError
                               | Some p \<Rightarrow> Inr (pwhash = ''toy$'' @ rev p))\<rparr>"

definition member_record :: user where
  "member_record =
     \<lparr>fullname = ''A'', email = ''a@x.com'', password = ''toy$4321wp'', registered_at = 1000\<rparr>"

definition site :: "user list \<Rightarrow> doc list \<Rightarrow> session \<Rightarrow> state" where
  "site us scans s =
     \<lparr>users_collection = us, scans_collection = scans, dirs = {''/srv/herballink/uploads''},
      uploads = Map.empty, io_fault = (\<lambda>p. None), sess = s\<rparr>"

definition empty_site :: "session \<Rightarrow> state" where
  "empty_site s = site [] [] s"

definition member_site :: "session \<Rightarrow> state" where
  "member_site s = site [member_record] [] s"

definition upload_request :: "string \<Rightarrow> string \<Rightarrow> request" where
  "upload_request fname bytes =
     \<lparr>req_method = POST, form = Map.empty,
      files = [''image'' \<mapsto> \<lparr>filename = fname, content = bytes\<rparr>]\<rparr>"

definition bare_request :: request where
  "bare_request = \<lparr>req_method = POST, form = Map.empty, files = Map.empty\<rparr>"

definition form_request :: "(string \<times> string) list \<Rightarrow> request" where
  "form_request kvs = \<lparr>req_method = POST, form = map_of kvs, files = Map.empty\<rparr>"

text \<open>No model file on disk: both models unloaded, no class names.\<close>

definition bare_env :: env where
  "bare_env = \<lparr>leaf_model = None, skin_model = None, disease_classes = [],
               upload_folder = ''/srv/herballink/uploads''\<rparr>"

text \<open>A twelve-output leaf model and a four-output skin model with single-precision
  outputs. Both reject a file that is not an image, give a flat distribution on a blurred
  photo and a clear one otherwise.\<close>

definition twelve_leaf_model :: keras_model where
  "twelve_leaf_model bytes =
     (if bytes = ''plain text'' then Inl UnidentifiedImageError
      else if bytes = ''blurred photo''
      then Inr [21/256, 21/256, 21/256, 25/256, 21/256, 21/256,
                21/256, 21/256, 21/256, 21/256, 21/256, 21/256]
      else Inr [1/128, 1/128, 1/128, 1/128, 1/128, 1/128,
                1/128, 1/128, 117/128, 1/128, 1/128, 1/128])"

definition four_skin_model :: keras_model where
  "four_skin_model bytes =
     (if bytes = ''plain text'' then Inl UnidentifiedImageError
      else if bytes = ''blurred photo'' then Inr [1/128, 5/128, 3/128, 1/32]
      else Inr [1/8, 5/8, 1/8, 1/8])"

definition loaded_env :: env where
  "loaded_env = \<lparr>leaf_model = Some twelve_leaf_model, skin_model = Some four_skin_model,
                 disease_classes = [''acne'', ''eczema'', ''psoriasis'', ''ringworm''],
                 upload_folder = ''/srv/herballink/uploads''\<rparr>"

text \<open>A leaf model with double-precision outputs whose top probability on every image is
  the double just below one tenth, \<open>7205759403792793 / 2^56\<close>; the twelve outputs are
  doubles and sum to one.\<close>

definition double_leaf_model :: keras_model where
  "double_leaf_model bytes =
     Inr [21/256, 21/256, 21/256, 21/256, 21/256, 21/256, 21/256, 21/256,
          7205759403792793 / 72057594037927936, 21/256, 21/256,
          5742089524897383 / 72057594037927936]"

definition double_env :: env where
  "double_env = \<lparr>leaf_model = Some double_leaf_model, skin_model = None, disease_classes = [],
                 upload_folder = ''/srv/herballink/uploads''\<rparr>"

text \<open>Models with one output more than there are class names.\<close>

definition thirteen_leaf_model :: keras_model where
  "thirteen_leaf_model bytes =
     (if bytes = ''blurred photo''
      then Inr [39/512, 39/512, 39/512, 39/512, 39/512, 39/512, 39/512,
                39/512, 39/512, 39/512, 39/512, 39/512, 11/128]
      else Inr [1/128, 1/128, 1/128, 1/128, 1/128, 1/128, 1/128,
                1/128, 1/128, 1/128, 1/128, 1/128, 29/32])"

definition five_skin_model :: keras_model where
  "five_skin_model bytes = Inr [1/8, 1/8, 1/8, 1/8, 1/2]"

definition wide_env :: env where
  "wide_env = \<lparr>leaf_model = Some thirteen_leaf_model, skin_model = Some five_skin_model,
               disease_classes = [''acne'', ''eczema'', ''psoriasis'', ''ringworm''],
               upload_folder = ''/srv/herballink/uploads''\<rparr>"

definition one_file :: "string \<Rightarrow> string \<Rightarrow> (string \<rightharpoonup> string)" where
  "one_file p bytes = [p \<mapsto> bytes]"

text \<open>A site with 203 scans stored a millisecond apart, oldest first.\<close>

definition nth_reply :: "nat \<Rightarrow> doc" where
  "nth_reply i = skin_scan_doc ''acne'' (3/4) ''a.png'' ''a.png'' (1000 * (1730000000000 + i))"

definition nth_scan :: "nat \<Rightarrow> doc" where
  "nth_scan i = (''_id'', JOid i) # nth_reply i"

definition busy_site :: "session \<Rightarrow> state" where
  "busy_site s = site [member_record] (map nth_scan [0..<203]) s"

section \<open>Lemmas\<close>

declare str_nat.simps [simp del]

declare bit_length.simps [simp del]

subsection \<open>Rounding to double precision\<close>

lemma bit_length_bounds: "0 < n \<Longrightarrow> 2 ^ (bit_length n - 1) \<le> n \<and> n < 2 ^ bit_length n"
proof (induction n rule: bit_length.induct)
  case (1 n)
  show ?case
  proof (cases "n div 2 = 0")
    case True
    with "1.prems" have "n = 1" by (simp add: div_eq_0_iff)
    then show ?thesis by (simp add: bit_length.simps)
  next
    case False
    then have h: "0 < n div 2" by simp
    with "1.IH" "1.prems" have ih: "2 ^ (bit_length (n div 2) - 1) \<le> n div 2"
      "n div 2 < 2 ^ bit_length (n div 2)" by simp_all
    from h have pos: "0 < bit_length (n div 2)" by (simp add: bit_length.simps [of "n div 2"])
    have b: "bit_length n = Suc (bit_length (n div 2))"
      using "1.prems" by (simp add: bit_length.simps [of n])
    have "2 ^ bit_length (n div 2) = 2 * 2 ^ (bit_length (n div 2) - 1)"
      using pos by (cases "bit_length (n div 2)") simp_all
    also have "\<dots> \<le> 2 * (n div 2)" using ih(1) by simp
    also have "\<dots> \<le> n" by simp
    finally have lo: "2 ^ bit_length (n div 2) \<le> n" .
    have "n < 2 * (n div 2) + 2" by arith
    also have "\<dots> \<le> 2 * 2 ^ bit_length (n div 2)" using ih(2) by simp
    finally have hi: "n < 2 ^ Suc (bit_length (n div 2))" by simp
    from lo hi show ?thesis by (simp add: b)
  qed
qed

lemma bit_length_pos: "0 < n \<Longrightarrow> 0 < bit_length n"
  by (simp add: bit_length.simps [of n])

text \<open>\<open>binade\<close> brackets a positive number between two consecutive powers of two.\<close>

lemma binade_bounds:
  assumes "0 < x"
  shows "pow2 (binade x) \<le> x \<and> x < pow2 (binade x + 1)"
proof (cases "1 \<le> x")
  case True
  define n where "n = nat \<lfloor>x\<rfloor>"
  from True have n: "0 < n" "real n \<le> x" "x < real n + 1"
    by (simp_all add: n_def)
  from bit_length_bounds [OF n(1)] have b: "2 ^ (bit_length n - 1) \<le> n" "n < 2 ^ bit_length n"
    by simp_all
  from b(1) have "real (2 ^ (bit_length n - 1)) \<le> real n" by (rule of_nat_mono)
  then have "(2::real) ^ (bit_length n - 1) \<le> real n" by simp
  with n(2) have lo: "(2::real) ^ (bit_length n - 1) \<le> x" by linarith
  from b(2) have "n + 1 \<le> 2 ^ bit_length n" by simp
  then have "real (n + 1) \<le> real (2 ^ bit_length n)" by (rule of_nat_mono)
  then have "real n + 1 \<le> 2 ^ bit_length n" by simp
  with n(3) have hi: "x < 2 ^ bit_length n" by linarith
  have e: "binade x = int (bit_length n) - 1" using True by (simp add: binade_def n_def)
  have p: "0 < bit_length n" using n(1) by (rule bit_length_pos)
  then have "nat (int (bit_length n) - 1) = bit_length n - 1" by simp
  with lo hi p show ?thesis by (simp add: e pow2_def)
next
  case False
  with assms have x: "0 < x" "x < 1" by simp_all
  define m where "m = nat \<lceil>1 / x\<rceil> - 1"
  from x have inv: "1 < 1 / x" by simp
  then have c: "2 \<le> \<lceil>1 / x\<rceil>" by linarith
  then have m: "0 < m" "real m < 1 / x" "1 / x \<le> real m + 1"
    by (simp_all add: m_def) linarith+
  from bit_length_bounds [OF m(1)] have b: "2 ^ (bit_length m - 1) \<le> m" "m < 2 ^ bit_length m"
    by simp_all
  have p: "0 < bit_length m" using m(1) by (rule bit_length_pos)
  from b(1) have "real (2 ^ (bit_length m - 1)) \<le> real m" by (rule of_nat_mono)
  then have "(2::real) ^ (bit_length m - 1) \<le> real m" by simp
  with m(2) have "(2::real) ^ (bit_length m - 1) < 1 / x" by linarith
  with x(1) have "2 ^ (bit_length m - 1) * x < 1"
    by (simp add: pos_less_divide_eq)
  then have hi: "x < 1 / 2 ^ (bit_length m - 1)"
    by (simp add: pos_less_divide_eq mult.commute)
  from b(2) have "m + 1 \<le> 2 ^ bit_length m" by simp
  then have "real (m + 1) \<le> real (2 ^ bit_length m)" by (rule of_nat_mono)
  then have "real m + 1 \<le> 2 ^ bit_length m" by simp
  with m(3) have "1 / x \<le> 2 ^ bit_length m" by linarith
  with x(1) have "1 \<le> 2 ^ bit_length m * x"
    by (simp add: pos_divide_le_eq)
  then have lo: "1 / 2 ^ bit_length m \<le> x"
    by (simp add: pos_divide_le_eq mult.commute)
  have e: "binade x = - int (bit_length m)" using False by (simp add: binade_def m_def)
  show ?thesis
  proof (cases "bit_length m = 1")
    case True
    with lo hi x show ?thesis by (simp add: e pow2_def)
  next
    case False
    with p have "1 < bit_length m" by simp
    then have "nat (int (bit_length m) - 1) = bit_length m - 1"
      and "\<not> 0 \<le> 1 - int (bit_length m)" by simp_all
    with lo hi p show ?thesis by (simp add: e pow2_def)
  qed
qed

text \<open>The definitions that evaluate \<open>round_double\<close> on a given number.\<close>

lemmas round_eval =
  round_double_def binade_def bit_length.simps pow2_def round_half_even_def Let_def

subsection \<open>Arg-max and maximum\<close>

lemma argmax_from_spec:
  "length ys = i \<Longrightarrow> best < i \<Longrightarrow> ys ! best = bv \<Longrightarrow>
   argmax_from best bv i xs < i + length xs \<and>
   (ys @ xs) ! argmax_from best bv i xs = fold max xs bv"
proof (induction xs arbitrary: best bv i ys)
  case Nil
  then show ?case by (simp add: nth_append)
next
  case (Cons x xs)
  show ?case
  proof (cases "bv < x")
    case True
    have "argmax_from i x (Suc i) xs < Suc i + length xs \<and>
          ((ys @ [x]) @ xs) ! argmax_from i x (Suc i) xs = fold max xs x"
      by (rule Cons.IH) (use Cons.prems in \<open>simp_all add: nth_append\<close>)
    moreover have "max x bv = x" using True by simp
    ultimately show ?thesis using True by simp
  next
    case False
    have "argmax_from best bv (Suc i) xs < Suc i + length xs \<and>
          ((ys @ [x]) @ xs) ! argmax_from best bv (Suc i) xs = fold max xs bv"
      by (rule Cons.IH) (use Cons.prems in \<open>simp_all add: nth_append\<close>)
    moreover have "max x bv = bv" using False by simp
    ultimately show ?thesis using False by simp
  qed
qed

lemma np_argmax_bound: "np_argmax preds = Inr idx \<Longrightarrow> idx < length preds"
  using argmax_from_spec [of "[hd preds]" 1 0 "hd preds" "tl preds"]
  by (cases preds) (auto simp: np_argmax_def)

lemma np_argmax_is_max: "np_argmax preds = Inr idx \<Longrightarrow> np_max preds = Inr (preds ! idx)"
  using argmax_from_spec [of "[hd preds]" 1 0 "hd preds" "tl preds"]
  by (cases preds) (auto simp: np_argmax_def np_max_def)

lemma np_max_is_Max: "np_max preds = Inr mx \<Longrightarrow> mx = Max (set preds)"
  by (cases preds) (auto simp: np_max_def Max.set_eq_fold simp del: set_simps)

lemma predict_leaf_image_loaded:
  assumes "leaf_model e = Some m" and "run_model m fs p = Inr preds"
    and "np_argmax preds = Inr idx"
  shows "predict_leaf_image e fs p =
           Inr (if round_double (preds ! idx * 100) < 10 then ''Not a Leaf''
                else if idx < length leaf_class_names then leaf_class_names ! idx
                else ''Unknown'',
                round_double (preds ! idx * 100))"
  using assms np_argmax_is_max [OF assms(3)]
  by (simp add: predict_leaf_image_def)

lemma predict_skin_image_loaded:
  assumes "skin_model e = Some m" and "disease_classes e \<noteq> []"
    and "run_model m fs p = Inr preds" and "np_argmax preds = Inr idx"
  shows "predict_skin_image e fs p =
           (if preds ! idx < 5 / 100 then Inr (''unknown'', 0)
            else Inr (if idx < length (disease_classes e) then disease_classes e ! idx
                      else ''unknown'', preds ! idx))"
  using assms np_argmax_is_max [OF assms(4)]
  by (simp add: predict_skin_image_def)

lemma predict_leaf_image_unloaded:
  "leaf_model e = None \<Longrightarrow> predict_leaf_image e fs p = Inr (''Unknown'', 0)"
  by (simp add: predict_leaf_image_def)

lemma predict_skin_image_unloaded:
  "skin_model e = None \<or> disease_classes e = [] \<Longrightarrow> predict_skin_image e fs p = Inr (''unknown'', 0)"
  by (auto simp add: predict_skin_image_def split: option.splits)

subsection \<open>File names\<close>

lemma rsplit1_last:
  assumes "CHR ''.'' \<notin> set ext"
  shows "rsplit1 (CHR ''.'') (stem @ ''.'' @ ext) ! 1 = ext"
proof -
  have "takeWhile (\<lambda>c. c \<noteq> CHR ''.'') (rev ext @ CHR ''.'' # rev stem) =
        rev ext @ takeWhile (\<lambda>c. c \<noteq> CHR ''.'') (CHR ''.'' # rev stem)"
    by (rule takeWhile_append2) (use assms in auto)
  then show ?thesis by (simp add: rsplit1_def)
qed

lemma rsplit1_join:
  assumes "sep \<in> set s"
  shows "s = rsplit1 sep s ! 0 @ [sep] @ rsplit1 sep s ! 1 \<and> sep \<notin> set (rsplit1 sep s ! 1)"
proof -
  let ?r = "rev s"
  let ?P = "\<lambda>c. c \<noteq> sep"
  have ne: "dropWhile ?P ?r \<noteq> []" using assms by auto
  then have hd: "hd (dropWhile ?P ?r) = sep" using hd_dropWhile [of ?P ?r] by simp
  have "?r = takeWhile ?P ?r @ dropWhile ?P ?r" by simp
  also have "dropWhile ?P ?r = sep # tl (dropWhile ?P ?r)" using ne hd
    by (metis list.collapse)
  finally have "rev ?r = rev (takeWhile ?P ?r @ sep # tl (dropWhile ?P ?r))" by simp
  then have "s = rev (tl (dropWhile ?P ?r)) @ [sep] @ rev (takeWhile ?P ?r)" by simp
  moreover have "sep \<notin> set (rev (takeWhile ?P ?r))"
    using set_takeWhileD [of sep ?P ?r] by auto
  ultimately show ?thesis using assms by (simp add: rsplit1_def)
qed

lemma allowed_file_iff: "allowed_file fname \<longleftrightarrow> has_allowed_extension fname"
proof
  assume a: "allowed_file fname"
  then have d: "CHR ''.'' \<in> set fname" by (simp add: allowed_file_def)
  from rsplit1_join [OF d] a show "has_allowed_extension fname"
    unfolding has_allowed_extension_def allowed_file_def
    by (intro exI [of _ "rsplit1 (CHR ''.'') fname ! 0"] exI [of _ "rsplit1 (CHR ''.'') fname ! 1"]) simp
next
  assume "has_allowed_extension fname"
  then obtain stem ext where f: "fname = stem @ ''.'' @ ext" and n: "CHR ''.'' \<notin> set ext"
    and l: "lower ext \<in> {''png'', ''jpg'', ''jpeg''}"
    unfolding has_allowed_extension_def by blast
  from rsplit1_last [OF n, of stem] f l show "allowed_file fname"
    by (simp add: allowed_file_def)
qed

lemma save_path_example:
  "os_path_join ''/srv/herballink/uploads'' (save_name 1730000000123 fname) =
     ''/srv/herballink/uploads/1730000000123_'' @ fname"
  by (simp add: os_path_join_def save_name_def str_nat.simps digit_def)

text \<open>A save that returns has written the content at the path and nothing else.\<close>

lemma file_save_returns:
  "file_save file p st = Inr st1 \<Longrightarrow> st1 = st\<lparr>uploads := (uploads st)(p \<mapsto> content file)\<rparr>"
  by (auto simp add: file_save_def split: if_splits option.splits)

lemma file_save_raises_cause:
  "file_save file p st = Inl err \<Longrightarrow>
   (CHR 0x00 \<in> set p \<or> (dirname p \<noteq> [] \<and> dirname p \<notin> dirs st) \<or> p \<in> dirs st \<or>
    io_fault st p = Some err)"
  by (auto simp add: file_save_def split: if_splits option.splits)

subsection \<open>Session gate and collections\<close>

lemma login_required_anonymous:
  "user_key (sess st) = None \<Longrightarrow>
   login_required f st = (Redirect ''login'', flash ''Please login first'' ''warning'' st)"
  by (simp add: login_required_def)

lemma login_required_user: "user_key (sess st) \<noteq> None \<Longrightarrow> login_required f st = f st"
  by (auto simp add: login_required_def)

lemma flash_keeps_data:
  "users_collection (flash msg cat st) = users_collection st"
  "scans_collection (flash msg cat st) = scans_collection st"
  "uploads (flash msg cat st) = uploads st"
  "user_key (sess (flash msg cat st)) = user_key (sess st)"
  by (simp_all add: flash_def)

lemma leaf_info_Unknown: "map_of leaf_info ''Unknown'' = None"
  by (simp add: leaf_info_def)

lemma find_one_None_iff: "find_one coll em = None \<longleftrightarrow> (\<forall>u\<in>set coll. email u \<noteq> em)"
  by (auto simp add: find_one_def find_None_iff)

lemma find_one_Some_email: "find_one coll em = Some u \<Longrightarrow> u \<in> set coll \<and> email u = em"
  by (auto simp add: find_one_def find_Some_iff)

lemma map_of_without_id: "k \<noteq> ''_id'' \<Longrightarrow> map_of (without_id d) k = map_of d k"
  unfolding without_id_def by (induction d) auto

lemma timestamp_key_without_id: "timestamp_key (without_id d) = timestamp_key d"
  by (simp add: timestamp_key_def map_of_without_id)

lemma sorted_wrt_sort_desc:
  "sorted_wrt (\<lambda>a b. f b \<le> f a) (sort_desc f xs)"
proof -
  have "sorted (map f (sort_key f (rev xs)))" by (rule sorted_sort_key)
  then have "sorted_wrt (\<lambda>a b. f a \<le> f b) (sort_key f (rev xs))"
    by (simp add: sorted_map)
  then show ?thesis by (simp add: sort_desc_def sorted_wrt_rev)
qed

lemma mset_sort_desc: "mset (sort_desc f xs) = mset xs"
  by (simp add: sort_desc_def)

lemma sorted_wrt_take_local: "sorted_wrt P xs \<Longrightarrow> sorted_wrt P (take n xs)"
  by (metis append_take_drop_id sorted_wrt_append)

lemma find_sort_limit_sorted:
  "sorted_wrt (\<lambda>a b. timestamp_key b \<le> timestamp_key a) (find_sort_limit coll n)"
proof -
  have "sorted_wrt (\<lambda>a b. timestamp_key b \<le> timestamp_key a) (take n (sort_desc timestamp_key coll))"
    by (rule sorted_wrt_take_local) (rule sorted_wrt_sort_desc)
  then show ?thesis
    by (simp add: find_sort_limit_def sorted_wrt_map timestamp_key_without_id)
qed

lemma find_sort_limit_length: "length (find_sort_limit coll n) = min (length coll) n"
  by (simp add: find_sort_limit_def sort_desc_def)

text \<open>Every document left out is at most as recent as every document returned.\<close>

lemma find_sort_limit_most_recent:
  assumes "d \<in># mset (map without_id coll) - mset (find_sort_limit coll n)"
    and "r \<in> set (find_sort_limit coll n)"
  shows "timestamp_key d \<le> timestamp_key r"
proof -
  let ?s = "sort_desc timestamp_key coll"
  have "mset (map without_id coll) = mset (map without_id ?s)"
    by (simp add: mset_sort_desc)
  also have "\<dots> = mset (map without_id (take n ?s)) + mset (map without_id (drop n ?s))"
    by (metis append_take_drop_id map_append mset_append)
  finally have "mset (map without_id coll) - mset (find_sort_limit coll n) =
                mset (map without_id (drop n ?s))"
    by (simp add: find_sort_limit_def)
  with assms(1) obtain d' where d': "d' \<in> set (drop n ?s)" "d = without_id d'"
    by auto
  from assms(2) obtain r' where r': "r' \<in> set (take n ?s)" "r = without_id r'"
    by (auto simp add: find_sort_limit_def)
  have "sorted_wrt (\<lambda>a b. timestamp_key b \<le> timestamp_key a) (take n ?s @ drop n ?s)"
    using sorted_wrt_sort_desc [of timestamp_key coll] by simp
  with d'(1) r'(1) have "timestamp_key d' \<le> timestamp_key r'"
    unfolding sorted_wrt_append by blast
  then show ?thesis by (simp add: d'(2) r'(2) timestamp_key_without_id)
qed

lemma find_sort_limit_subset:
  "mset (find_sort_limit coll n) \<subseteq># mset (map without_id coll)"
proof -
  have "mset (take n (sort_desc timestamp_key coll)) \<subseteq># mset (sort_desc timestamp_key coll)"
    by (metis append_take_drop_id mset_append mset_subset_eq_add_left)
  then have "image_mset without_id (mset (take n (sort_desc timestamp_key coll)))
             \<subseteq># image_mset without_id (mset coll)"
    by (simp add: mset_sort_desc image_mset_subseteq_mono)
  then show ?thesis by (simp add: find_sort_limit_def)
qed

lemma find_sort_limit_all:
  "length coll \<le> n \<Longrightarrow> mset (find_sort_limit coll n) = mset (map without_id coll)"
proof -
  assume "length coll \<le> n"
  then have "length (sort_desc timestamp_key coll) \<le> n" by (simp add: sort_desc_def)
  then have "take n (sort_desc timestamp_key coll) = sort_desc timestamp_key coll" by simp
  then show ?thesis by (simp add: find_sort_limit_def mset_sort_desc)
qed

subsection \<open>Registration and login\<close>

lemma register_success_cases:
  assumes "fst (register sec now req st) = Redirect ''login''"
  obtains fn em pw where "form req ''fullname'' = Some fn" "form req ''email'' = Some em"
    "form req ''password'' = Some pw" "form req ''confirmPassword'' = Some pw"
    "fn \<noteq> []" "em \<noteq> []" "pw \<noteq> []" "find_one (users_collection st) em = None"
    "req_method req = POST"
proof -
  from assms have p: "req_method req = POST"
    by (auto simp add: register_def split: if_splits)
  from assms p have b: "\<not> falsy (form req ''fullname'')" "\<not> falsy (form req ''email'')"
    "\<not> falsy (form req ''password'')"
    by (auto simp add: register_def Let_def split: if_splits)
  from assms p b have c: "form req ''password'' = form req ''confirmPassword''"
    by (auto simp add: register_def Let_def split: if_splits)
  from assms p b c have d: "find_one (users_collection st) (the (form req ''email'')) = None"
    by (auto simp add: register_def Let_def split: if_splits)
  from b obtain fn em pw where v: "form req ''fullname'' = Some fn" "form req ''email'' = Some em"
    "form req ''password'' = Some pw" "fn \<noteq> []" "em \<noteq> []" "pw \<noteq> []"
    by (auto simp add: falsy_def)
  from c v have c': "form req ''confirmPassword'' = Some pw" by simp
  from d v have d': "find_one (users_collection st) em = None" by simp
  show ?thesis by (rule that [OF v(1) v(2) v(3) c' v(4) v(5) v(6) d' p])
qed

lemma register_success:
  assumes "req_method req = POST" "form req ''fullname'' = Some fn" "form req ''email'' = Some em"
    "form req ''password'' = Some pw" "form req ''confirmPassword'' = Some pw"
    "fn \<noteq> []" "em \<noteq> []" "pw \<noteq> []" "find_one (users_collection st) em = None"
  shows "register sec now req st =
          (Redirect ''login'',
           flash ''Registration successful! Login now.'' ''success''
             (st\<lparr>users_collection := users_collection st @
                  [\<lparr>fullname = fn, email = em, password = generate_password_hash sec pw,
                    registered_at = bson_date now\<rparr>]\<rparr>))"
  using assms by (simp add: register_def Let_def falsy_def)

lemma login_post:
  assumes "req_method req = POST"
  shows "login sec req st =
     (case form req ''email'' of
        None \<Rightarrow> (Redirect ''login'', flash ''Invalid credentials'' ''danger'' st)
      | Some em \<Rightarrow>
         (case find_one (users_collection st) em of
            None \<Rightarrow> (Redirect ''login'', flash ''Invalid credentials'' ''danger'' st)
          | Some u \<Rightarrow>
             (case check_password_hash sec (password u) (form req ''password'') of
                Inl err \<Rightarrow> (Unhandled err, st)
              | Inr ok \<Rightarrow>
                 if ok
                 then (Redirect ''scan_home'',
                       flash (''Welcome '' @ (if fullname u \<noteq> [] then fullname u else em)) ''success''
                         (st\<lparr>sess := (sess st)\<lparr>user_key :=
                               Some \<lparr>su_email = em, su_fullname = fullname u\<rparr>\<rparr>\<rparr>))
                 else (Redirect ''login'', flash ''Invalid credentials'' ''danger'' st))))"
  using assms by (simp add: login_def Let_def split: option.splits sum.splits)

section \<open>Properties of the classifiers\<close>

text \<open>
  Claim C1 as stated is worded on the top probability: below 10 percent, the leaf
  classifier returns "Not a Leaf". The classifier tests the rounded product of the
  probability and 100. For the double just below one tenth the product rounds to 10.0,
  the test \<open>conf < 10.0\<close> fails and the class name at the arg-max index is returned.
\<close>

theorem leaf_product_rounds_to_ten:
  "leaf_model double_env = Some double_leaf_model \<and>
   run_model double_leaf_model (one_file ''u/1_a.png'' ''clear photo'') ''u/1_a.png'' =
     Inr [21/256, 21/256, 21/256, 21/256, 21/256, 21/256, 21/256, 21/256,
          7205759403792793 / 72057594037927936, 21/256, 21/256,
          5742089524897383 / 72057594037927936] \<and>
   np_argmax [21/256, 21/256, 21/256, 21/256, 21/256, 21/256, 21/256, 21/256,
              7205759403792793 / 72057594037927936, 21/256, 21/256,
              5742089524897383 / 72057594037927936] = Inr 8 \<and>
   sum_list [21/256, 21/256, 21/256, 21/256, 21/256, 21/256, 21/256, 21/256,
             7205759403792793 / 72057594037927936, 21/256, 21/256,
             5742089524897383 / 72057594037927936] = (1 :: real) \<and>
   (7205759403792793 / 72057594037927936 :: real) < 10 / 100 \<and>
   round_double (7205759403792793 / 72057594037927936 * 100) = 10 \<and>
   predict_leaf_image double_env (one_file ''u/1_a.png'' ''clear photo'') ''u/1_a.png'' =
     Inr (''Neem'', 10)"
  by (simp add: double_env_def double_leaf_model_def one_file_def run_model_def np_argmax_def
      np_max_def leaf_class_names_def predict_leaf_image_def round_eval)

text \<open>
  Claim C1, amended. Whenever a loaded classifier runs and the confidence it computes is
  below the threshold, the label is the sentinel whatever class the arg-max index names:
  for the leaf classifier the confidence is the product of the top probability and 100,
  rounded to a double, and below 10.0 it gives \<open>"Not a Leaf"\<close> with that confidence; for
  the skin classifier the confidence is the top probability itself, and below 0.05 it
  gives \<open>"unknown"\<close> with confidence 0.0.
\<close>

theorem low_confidence_gives_sentinel:
  "(leaf_model e = Some m \<and> run_model m fs p = Inr preds \<and> np_argmax preds = Inr idx \<and>
      round_double (preds ! idx * 100) < 10
     \<longrightarrow> predict_leaf_image e fs p = Inr (''Not a Leaf'', round_double (preds ! idx * 100))) \<and>
   (skin_model e = Some m' \<and> disease_classes e \<noteq> [] \<and> run_model m' fs p = Inr preds' \<and>
      np_argmax preds' = Inr idx' \<and> preds' ! idx' < 5 / 100
     \<longrightarrow> predict_skin_image e fs p = Inr (''unknown'', 0))"
  by (simp add: predict_leaf_image_loaded predict_skin_image_loaded)

text \<open>A blurred photo on the twelve-output leaf model (arg-max "Bhrami", confidence
  9.765625) and on the four-output skin model (arg-max "eczema" at 0.0390625).\<close>

theorem low_confidence_gives_sentinel_witness:
  "(leaf_model loaded_env = Some twelve_leaf_model \<and>
    run_model twelve_leaf_model (one_file ''u/1_a.png'' ''blurred photo'') ''u/1_a.png'' =
      Inr [21/256, 21/256, 21/256, 25/256, 21/256, 21/256,
           21/256, 21/256, 21/256, 21/256, 21/256, 21/256] \<and>
    np_argmax [21/256, 21/256, 21/256, 25/256, 21/256, 21/256,
               21/256, 21/256, 21/256, 21/256, 21/256, 21/256] = Inr 3 \<and>
    leaf_class_names ! 3 = ''Bhrami'' \<and>
    round_double (25/256 * 100) = 625/64 \<and>
    predict_leaf_image loaded_env (one_file ''u/1_a.png'' ''blurred photo'') ''u/1_a.png'' =
      Inr (''Not a Leaf'', 625/64)) \<and>
   (skin_model loaded_env = Some four_skin_model \<and> disease_classes loaded_env \<noteq> [] \<and>
    run_model four_skin_model (one_file ''u/1_a.png'' ''blurred photo'') ''u/1_a.png'' =
      Inr [1/128, 5/128, 3/128, 1/32] \<and>
    np_argmax [1/128, 5/128, 3/128, 1/32] = Inr 1 \<and>
    disease_classes loaded_env ! 1 = ''eczema'' \<and>
    predict_skin_image loaded_env (one_file ''u/1_a.png'' ''blurred photo'') ''u/1_a.png'' =
      Inr (''unknown'', 0))"
proof -
  have r: "round_double (25/256 * 100) = 625/64" by (simp add: round_eval)
  show ?thesis
    using low_confidence_gives_sentinel [of loaded_env twelve_leaf_model
        "one_file ''u/1_a.png'' ''blurred photo''" "''u/1_a.png''"
        "[21/256, 21/256, 21/256, 25/256, 21/256, 21/256,
          21/256, 21/256, 21/256, 21/256, 21/256, 21/256]" 3
        four_skin_model "[1/128, 5/128, 3/128, 1/32]" 1] r
    by (simp add: loaded_env_def twelve_leaf_model_def four_skin_model_def one_file_def
        run_model_def np_argmax_def leaf_class_names_def)
qed

text \<open>
  Claim C10 as stated says that the leaf classifier returns "Unknown" whenever the arg-max
  index is beyond the class names. On a thirteen-output model whose top probability, at
  index 12, gives the confidence 8.59375, it returns "Not a Leaf".
\<close>

theorem out_of_range_low_confidence_leaf:
  "leaf_model wide_env = Some thirteen_leaf_model \<and>
   run_model thirteen_leaf_model (one_file ''u/1_a.png'' ''blurred photo'') ''u/1_a.png'' =
     Inr [39/512, 39/512, 39/512, 39/512, 39/512, 39/512, 39/512,
          39/512, 39/512, 39/512, 39/512, 39/512, 11/128] \<and>
   np_argmax [39/512, 39/512, 39/512, 39/512, 39/512, 39/512, 39/512,
              39/512, 39/512, 39/512, 39/512, 39/512, 11/128] = Inr 12 \<and>
   length leaf_class_names \<le> 12 \<and>
   predict_leaf_image wide_env (one_file ''u/1_a.png'' ''blurred photo'') ''u/1_a.png'' =
     Inr (''Not a Leaf'', 275/32) \<and>
   predict_leaf_image wide_env (one_file ''u/1_a.png'' ''blurred photo'') ''u/1_a.png'' \<noteq>
     Inr (''Unknown'', 275/32)"
  by (simp add: wide_env_def thirteen_leaf_model_def one_file_def run_model_def np_argmax_def
      np_max_def leaf_class_names_def predict_leaf_image_def round_eval)

text \<open>
  Claim C10, amended. When the arg-max index is not smaller than the number of class names,
  the classifier returns a result instead of an index error: the leaf classifier returns
  "Unknown" unless the confidence is below 10 percent, where it returns "Not a Leaf"; the
  skin classifier returns "unknown". The confidence of the leaf classifier is the rounded
  product it computes.
\<close>

theorem class_lookup_total:
  "(leaf_model e = Some m \<and> run_model m fs p = Inr preds \<and> np_argmax preds = Inr idx \<and>
      length leaf_class_names \<le> idx
     \<longrightarrow> predict_leaf_image e fs p =
          Inr (if round_double (preds ! idx * 100) < 10 then ''Not a Leaf'' else ''Unknown'',
               round_double (preds ! idx * 100))) \<and>
   (skin_model e = Some m' \<and> disease_classes e \<noteq> [] \<and> run_model m' fs p = Inr preds' \<and>
      np_argmax preds' = Inr idx' \<and> length (disease_classes e) \<le> idx'
     \<longrightarrow> predict_skin_image e fs p =
          Inr (''unknown'', if preds' ! idx' < 5 / 100 then 0 else preds' ! idx'))"
  by (simp add: predict_leaf_image_loaded predict_skin_image_loaded)

text \<open>A clear photo on models with one output more than there are class names.\<close>

theorem class_lookup_total_witness:
  "(leaf_model wide_env = Some thirteen_leaf_model \<and>
    run_model thirteen_leaf_model (one_file ''u/1_a.png'' ''clear photo'') ''u/1_a.png'' =
      Inr [1/128, 1/128, 1/128, 1/128, 1/128, 1/128, 1/128,
           1/128, 1/128, 1/128, 1/128, 1/128, 29/32] \<and>
    np_argmax [1/128, 1/128, 1/128, 1/128, 1/128, 1/128, 1/128,
               1/128, 1/128, 1/128, 1/128, 1/128, 29/32] = Inr 12 \<and>
    length leaf_class_names \<le> 12 \<and>
    predict_leaf_image wide_env (one_file ''u/1_a.png'' ''clear photo'') ''u/1_a.png'' =
      Inr (''Unknown'', 725/8)) \<and>
   (skin_model wide_env = Some five_skin_model \<and> disease_classes wide_env \<noteq> [] \<and>
    run_model five_skin_model (one_file ''u/1_a.png'' ''clear photo'') ''u/1_a.png'' =
      Inr [1/8, 1/8, 1/8, 1/8, 1/2] \<and>
    np_argmax [1/8, 1/8, 1/8, 1/8, 1/2] = Inr 4 \<and>
    length (disease_classes wide_env) \<le> 4 \<and>
    predict_skin_image wide_env (one_file ''u/1_a.png'' ''clear photo'') ''u/1_a.png'' =
      Inr (''unknown'', 1/2))"
proof -
  have r: "round_double (29/32 * 100) = 725/8" by (simp add: round_eval)
  show ?thesis
    using class_lookup_total [of wide_env thirteen_leaf_model
        "one_file ''u/1_a.png'' ''clear photo''" "''u/1_a.png''"
        "[1/128, 1/128, 1/128, 1/128, 1/128, 1/128, 1/128,
          1/128, 1/128, 1/128, 1/128, 1/128, 29/32]" 12
        five_skin_model "[1/8, 1/8, 1/8, 1/8, 1/2]" 4] r
    by (simp add: wide_env_def thirteen_leaf_model_def five_skin_model_def one_file_def
        run_model_def np_argmax_def leaf_class_names_def)
qed

section \<open>Properties of the session gate\<close>

text \<open>
  Claim C3. With no user in the session, every request that reaches one of the protected
  views (/scan_home, /scan_leaf, /scan_skin, /predict, /predict-leaf, /scans) is answered
  with the redirect to the login page and the queued notice "Please login first". The
  decorator returns this whatever the wrapped view is, so the view is not run: users,
  scans and uploads are as before.
\<close>

theorem anonymous_request_redirected:
  assumes "user_key (sess st) = None"
  shows "login_required f st = (Redirect ''login'', flash ''Please login first'' ''warning'' st) \<and>
         scan_home st = (Redirect ''login'', flash ''Please login first'' ''warning'' st) \<and>
         scan_leaf_page st = (Redirect ''login'', flash ''Please login first'' ''warning'' st) \<and>
         scan_skin_page st = (Redirect ''login'', flash ''Please login first'' ''warning'' st) \<and>
         predict_skin e ms now req st = (Redirect ''login'', flash ''Please login first'' ''warning'' st) \<and>
         predict_leaf e ms now req st = (Redirect ''login'', flash ''Please login first'' ''warning'' st) \<and>
         get_scans st = (Redirect ''login'', flash ''Please login first'' ''warning'' st) \<and>
         users_collection (flash ''Please login first'' ''warning'' st) = users_collection st \<and>
         scans_collection (flash ''Please login first'' ''warning'' st) = scans_collection st \<and>
         uploads (flash ''Please login first'' ''warning'' st) = uploads st"
  using assms
  by (simp add: login_required_anonymous scan_home_def scan_leaf_page_def scan_skin_page_def
      predict_skin_def predict_leaf_def get_scans_def flash_keeps_data)

text \<open>An anonymous visitor on a site with one member.\<close>

theorem anonymous_request_redirected_witness:
  "user_key (sess (member_site anonymous_session)) = None \<and>
   login_required (predict_leaf_view bare_env 1 2 (upload_request ''leaf.png'' ''clear photo''))
       (member_site anonymous_session) =
     (Redirect ''login'',
      member_site \<lparr>user_key = None, flashes = [(''warning'', ''Please login first'')]\<rparr>) \<and>
   scan_home (member_site anonymous_session) =
     (Redirect ''login'',
      member_site \<lparr>user_key = None, flashes = [(''warning'', ''Please login first'')]\<rparr>) \<and>
   scan_leaf_page (member_site anonymous_session) =
     (Redirect ''login'',
      member_site \<lparr>user_key = None, flashes = [(''warning'', ''Please login first'')]\<rparr>) \<and>
   scan_skin_page (member_site anonymous_session) =
     (Redirect ''login'',
      member_site \<lparr>user_key = None, flashes = [(''warning'', ''Please login first'')]\<rparr>) \<and>
   predict_skin bare_env 1 2 (upload_request ''a.png'' ''clear photo'')
       (member_site anonymous_session) =
     (Redirect ''login'',
      member_site \<lparr>user_key = None, flashes = [(''warning'', ''Please login first'')]\<rparr>) \<and>
   predict_leaf bare_env 1 2 (upload_request ''leaf.png'' ''clear photo'')
       (member_site anonymous_session) =
     (Redirect ''login'',
      member_site \<lparr>user_key = None, flashes = [(''warning'', ''Please login first'')]\<rparr>) \<and>
   get_scans (member_site anonymous_session) =
     (Redirect ''login'',
      member_site \<lparr>user_key = None, flashes = [(''warning'', ''Please login first'')]\<rparr>)"
  using anonymous_request_redirected [of "member_site anonymous_session"
      "predict_leaf_view bare_env 1 2 (upload_request ''leaf.png'' ''clear photo'')"
      bare_env 1 2 "upload_request ''a.png'' ''clear photo''"]
    anonymous_request_redirected [of "member_site anonymous_session"
      "predict_leaf_view bare_env 1 2 (upload_request ''leaf.png'' ''clear photo'')"
      bare_env 1 2 "upload_request ''leaf.png'' ''clear photo''"]
  by (simp add: flash_def member_site_def site_def anonymous_session_def)

section \<open>Properties of the credential store\<close>

text \<open>
  Claim C4. A registration POST in which a required field (fullname, email, password) is
  missing or empty, or password and confirmation differ, or the email is the email of a
  stored user, is answered with the redirect back to the form and one of the three
  validation messages, and the user collection is unchanged. When only the email clashes,
  the message is "Email already registered".
\<close>

theorem register_rejects_without_insert:
  assumes "req_method req = POST"
    and "falsy (form req ''fullname'') \<or> falsy (form req ''email'') \<or>
         falsy (form req ''password'') \<or>
         form req ''password'' \<noteq> form req ''confirmPassword'' \<or>
         (\<exists>u\<in>set (users_collection st). form req ''email'' = Some (email u))"
  shows "(register sec now req st =
            (Redirect ''register'', flash ''All fields required'' ''danger'' st) \<or>
          register sec now req st =
            (Redirect ''register'', flash ''Passwords do not match'' ''danger'' st) \<or>
          register sec now req st =
            (Redirect ''register'', flash ''Email already registered'' ''warning'' st)) \<and>
         users_collection (snd (register sec now req st)) = users_collection st \<and>
         (\<not> falsy (form req ''fullname'') \<and> \<not> falsy (form req ''email'') \<and>
          \<not> falsy (form req ''password'') \<and>
          form req ''password'' = form req ''confirmPassword''
          \<longrightarrow> register sec now req st =
               (Redirect ''register'', flash ''Email already registered'' ''warning'' st))"
proof -
  let ?blank = "falsy (form req ''fullname'') \<or> falsy (form req ''email'') \<or>
                falsy (form req ''password'')"
  let ?differ = "form req ''password'' \<noteq> form req ''confirmPassword''"
  consider (blank) ?blank | (differ) "\<not> ?blank" ?differ | (taken) "\<not> ?blank" "\<not> ?differ"
    by blast
  then show ?thesis
  proof cases
    case blank
    with assms(1) show ?thesis by (auto simp add: register_def Let_def flash_keeps_data)
  next
    case differ
    with assms(1) show ?thesis by (simp add: register_def Let_def flash_keeps_data)
  next
    case taken
    with assms(2) obtain u where u: "u \<in> set (users_collection st)"
      and e: "form req ''email'' = Some (email u)" by blast
    then have "find_one (users_collection st) (the (form req ''email'')) \<noteq> None"
      by (auto simp add: find_one_None_iff)
    with assms(1) taken show ?thesis by (simp add: register_def Let_def flash_keeps_data)
  qed
qed

text \<open>A second registration under the member's email, all fields filled in.\<close>

theorem register_rejects_without_insert_witness:
  "req_method (form_request [(''fullname'', ''B''), (''email'', ''a@x.com''),
                         (''password'', ''pw9999''), (''confirmPassword'', ''pw9999'')]) = POST \<and>
   (\<exists>u\<in>set (users_collection (member_site anonymous_session)).
      form (form_request [(''fullname'', ''B''), (''email'', ''a@x.com''),
                          (''password'', ''pw9999''), (''confirmPassword'', ''pw9999'')]) ''email'' =
        Some (email u)) \<and>
   register toy_security 2000
       (form_request [(''fullname'', ''B''), (''email'', ''a@x.com''),
                      (''password'', ''pw9999''), (''confirmPassword'', ''pw9999'')])
       (member_site anonymous_session) =
     (Redirect ''register'',
      member_site \<lparr>user_key = None, flashes = [(''warning'', ''Email already registered'')]\<rparr>) \<and>
   users_collection (snd (register toy_security 2000
       (form_request [(''fullname'', ''B''), (''email'', ''a@x.com''),
                      (''password'', ''pw9999''), (''confirmPassword'', ''pw9999'')])
       (member_site anonymous_session))) = [member_record]"
proof -
  let ?req = "form_request [(''fullname'', ''B''), (''email'', ''a@x.com''),
                            (''password'', ''pw9999''), (''confirmPassword'', ''pw9999'')]"
  let ?site = "member_site anonymous_session"
  have h: "\<exists>u\<in>set (users_collection ?site). form ?req ''email'' = Some (email u)"
    by (simp add: member_site_def site_def member_record_def form_request_def)
  have m: "req_method ?req = POST" by (simp add: form_request_def)
  have full: "\<not> falsy (form ?req ''fullname'') \<and> \<not> falsy (form ?req ''email'') \<and>
          \<not> falsy (form ?req ''password'') \<and>
          form ?req ''password'' = form ?req ''confirmPassword''"
    by (simp add: falsy_def form_request_def)
  have hyp: "falsy (form ?req ''fullname'') \<or> falsy (form ?req ''email'') \<or>
         falsy (form ?req ''password'') \<or>
         form ?req ''password'' \<noteq> form ?req ''confirmPassword'' \<or>
         (\<exists>u\<in>set (users_collection ?site). form ?req ''email'' = Some (email u))"
    using h by blast
  note inst = register_rejects_without_insert [OF m hyp, of toy_security 2000]
  have 1: "register toy_security 2000 ?req ?site =
          (Redirect ''register'', flash ''Email already registered'' ''warning'' ?site)"
    using inst [THEN conjunct2, THEN conjunct2, THEN mp, OF full] .
  have 2: "users_collection (snd (register toy_security 2000 ?req ?site)) = users_collection ?site"
    using inst [THEN conjunct2, THEN conjunct1] .
  have 3: "flash ''Email already registered'' ''warning'' ?site =
           member_site \<lparr>user_key = None, flashes = [(''warning'', ''Email already registered'')]\<rparr>"
    by (simp add: flash_def member_site_def site_def anonymous_session_def)
  have 4: "users_collection ?site = [member_record]" by (simp add: member_site_def site_def)
  from m h 1 2 3 4 show ?thesis by simp
qed

text \<open>
  Claim C5. Every successful registration (the response is the redirect to the login
  page) has appended one user whose password field is \<open>generate_password_hash\<close> of the
  submitted password, so it differs from the plaintext wherever the hash function does.
  A login POST succeeds (redirect to scan_home, session user set) exactly when the email
  is that of a stored user and \<open>check_password_hash\<close>, applied to the stored field and
  the submitted password, returns true; otherwise the session user is left as it was.
  The two strings are never compared for equality.
\<close>

theorem password_hashed_and_checked:
  "(fst (register sec now req st) = Redirect ''login''
    \<longrightarrow> (\<exists>fn em pw.
           form req ''fullname'' = Some fn \<and> form req ''email'' = Some em \<and>
           form req ''password'' = Some pw \<and>
           users_collection (snd (register sec now req st)) =
             users_collection st @
               [\<lparr>fullname = fn, email = em, password = generate_password_hash sec pw,
                 registered_at = bson_date now\<rparr>] \<and>
           (generate_password_hash sec pw \<noteq> pw \<longrightarrow>
              password (last (users_collection (snd (register sec now req st)))) \<noteq> pw))) \<and>
   (req_method req' = POST
    \<longrightarrow> (fst (login sec req' st') = Redirect ''scan_home'') =
        (\<exists>em u. form req' ''email'' = Some em \<and> find_one (users_collection st') em = Some u \<and>
                check_password_hash sec (password u) (form req' ''password'') = Inr True) \<and>
        (\<forall>em u. form req' ''email'' = Some em \<and> find_one (users_collection st') em = Some u \<and>
                check_password_hash sec (password u) (form req' ''password'') = Inr True
          \<longrightarrow> user_key (sess (snd (login sec req' st'))) =
                Some \<lparr>su_email = em, su_fullname = fullname u\<rparr>) \<and>
        (fst (login sec req' st') \<noteq> Redirect ''scan_home''
          \<longrightarrow> user_key (sess (snd (login sec req' st'))) = user_key (sess st')))"
proof (intro conjI impI)
  assume a: "fst (register sec now req st) = Redirect ''login''"
  then obtain fn em pw where f: "form req ''fullname'' = Some fn" "form req ''email'' = Some em"
    "form req ''password'' = Some pw" "form req ''confirmPassword'' = Some pw"
    "fn \<noteq> []" "em \<noteq> []" "pw \<noteq> []" "find_one (users_collection st) em = None"
    "req_method req = POST"
    by (rule register_success_cases)
  have r: "register sec now req st =
          (Redirect ''login'',
           flash ''Registration successful! Login now.'' ''success''
             (st\<lparr>users_collection := users_collection st @
                  [\<lparr>fullname = fn, email = em, password = generate_password_hash sec pw,
                    registered_at = bson_date now\<rparr>]\<rparr>))"
    using f by (intro register_success)
  show "\<exists>fn em pw.
           form req ''fullname'' = Some fn \<and> form req ''email'' = Some em \<and>
           form req ''password'' = Some pw \<and>
           users_collection (snd (register sec now req st)) =
             users_collection st @
               [\<lparr>fullname = fn, email = em, password = generate_password_hash sec pw,
                 registered_at = bson_date now\<rparr>] \<and>
           (generate_password_hash sec pw \<noteq> pw \<longrightarrow>
              password (last (users_collection (snd (register sec now req st)))) \<noteq> pw)"
    using f(1-3) by (simp add: r flash_keeps_data)
next
  assume p: "req_method req' = POST"
  show "(fst (login sec req' st') = Redirect ''scan_home'') =
        (\<exists>em u. form req' ''email'' = Some em \<and> find_one (users_collection st') em = Some u \<and>
                check_password_hash sec (password u) (form req' ''password'') = Inr True)"
    by (auto simp add: login_post [OF p] split: option.splits sum.splits)
  show "\<forall>em u. form req' ''email'' = Some em \<and> find_one (users_collection st') em = Some u \<and>
                check_password_hash sec (password u) (form req' ''password'') = Inr True
          \<longrightarrow> user_key (sess (snd (login sec req' st'))) =
                Some \<lparr>su_email = em, su_fullname = fullname u\<rparr>"
    by (auto simp add: login_post [OF p] flash_def)
  show "user_key (sess (snd (login sec req' st'))) = user_key (sess st')"
    if "fst (login sec req' st') \<noteq> Redirect ''scan_home''"
    using that by (auto simp add: login_post [OF p] flash_def split: option.splits sum.splits)
qed

text \<open>With a toy hash: registering pw1234 stores toy$4321wp; logging in with pw1234
  succeeds, logging in with the stored string itself is refused.\<close>

theorem password_hashed_and_checked_witness:
  "fst (register toy_security 1000
       (form_request [(''fullname'', ''A''), (''email'', ''a@x.com''),
                      (''password'', ''pw1234''), (''confirmPassword'', ''pw1234'')])
       (empty_site anonymous_session)) = Redirect ''login'' \<and>
   users_collection (snd (register toy_security 1000
       (form_request [(''fullname'', ''A''), (''email'', ''a@x.com''),
                      (''password'', ''pw1234''), (''confirmPassword'', ''pw1234'')])
       (empty_site anonymous_session))) =
     [\<lparr>fullname = ''A'', email = ''a@x.com'',
       password = generate_password_hash toy_security ''pw1234'', registered_at = 1000\<rparr>] \<and>
   generate_password_hash toy_security ''pw1234'' = ''toy$4321wp'' \<and>
   req_method (form_request [(''email'', ''a@x.com''), (''password'', ''pw1234'')]) = POST \<and>
   fst (login toy_security (form_request [(''email'', ''a@x.com''), (''password'', ''pw1234'')])
       (member_site anonymous_session)) = Redirect ''scan_home'' \<and>
   user_key (sess (snd (login toy_security
       (form_request [(''email'', ''a@x.com''), (''password'', ''pw1234'')])
       (member_site anonymous_session)))) = Some \<lparr>su_email = ''a@x.com'', su_fullname = ''A''\<rparr> \<and>
   req_method (form_request [(''email'', ''a@x.com''), (''password'', ''toy$4321wp'')]) = POST \<and>
   fst (login toy_security (form_request [(''email'', ''a@x.com''), (''password'', ''toy$4321wp'')])
       (member_site anonymous_session)) \<noteq> Redirect ''scan_home'' \<and>
   user_key (sess (snd (login toy_security
       (form_request [(''email'', ''a@x.com''), (''password'', ''toy$4321wp'')])
       (member_site anonymous_session)))) = None"
proof -
  let ?reg = "form_request [(''fullname'', ''A''), (''email'', ''a@x.com''),
                            (''password'', ''pw1234''), (''confirmPassword'', ''pw1234'')]"
  let ?good = "form_request [(''email'', ''a@x.com''), (''password'', ''pw1234'')]"
  let ?stored = "form_request [(''email'', ''a@x.com''), (''password'', ''toy$4321wp'')]"
  let ?site = "member_site anonymous_session"
  have f: "find_one (users_collection ?site) ''a@x.com'' = Some member_record"
    by (simp add: find_one_def member_site_def site_def member_record_def)
  have r: "fst (register toy_security 1000 ?reg (empty_site anonymous_session)) = Redirect ''login''"
    by (simp add: register_def Let_def falsy_def find_one_def form_request_def empty_site_def site_def)
  have pg: "req_method ?good = POST" and ps: "req_method ?stored = POST"
    by (simp_all add: form_request_def)
  note reg = password_hashed_and_checked [of toy_security 1000 ?reg "empty_site anonymous_session"
      ?good ?site, THEN conjunct1, THEN mp, OF r]
  note good = password_hashed_and_checked [of toy_security 1000 ?reg "empty_site anonymous_session"
      ?good ?site, THEN conjunct2, THEN mp, OF pg]
  note stored = password_hashed_and_checked [of toy_security 1000 ?reg "empty_site anonymous_session"
      ?stored ?site, THEN conjunct2, THEN mp, OF ps]
  have 1: "users_collection (snd (register toy_security 1000 ?reg (empty_site anonymous_session))) =
     [\<lparr>fullname = ''A'', email = ''a@x.com'',
       password = generate_password_hash toy_security ''pw1234'', registered_at = 1000\<rparr>]"
    using reg by (auto simp add: form_request_def empty_site_def site_def bson_date_def)
  have 2: "generate_password_hash toy_security ''pw1234'' = ''toy$4321wp''"
    by (simp add: toy_security_def)
  have ok: "check_password_hash toy_security (password member_record) (form ?good ''password'') = Inr True"
    by (simp add: toy_security_def member_record_def form_request_def)
  have e: "form ?good ''email'' = Some ''a@x.com''" by (simp add: form_request_def)
  have 3: "fst (login toy_security ?good ?site) = Redirect ''scan_home''"
    using good [THEN conjunct1] f ok e by blast
  have 4: "user_key (sess (snd (login toy_security ?good ?site))) =
             Some \<lparr>su_email = ''a@x.com'', su_fullname = ''A''\<rparr>"
    using good [THEN conjunct2, THEN conjunct1] f ok e by (auto simp add: member_record_def)
  have no: "check_password_hash toy_security (password member_record) (form ?stored ''password'') = Inr False"
    by (simp add: toy_security_def member_record_def form_request_def)
  have e': "form ?stored ''email'' = Some ''a@x.com''" by (simp add: form_request_def)
  have 5: "fst (login toy_security ?stored ?site) \<noteq> Redirect ''scan_home''"
    using stored [THEN conjunct1] f no e' by auto
  have 6: "user_key (sess (snd (login toy_security ?stored ?site))) = None"
    using stored [THEN conjunct2, THEN conjunct2] 5
    by (simp add: member_site_def site_def anonymous_session_def)
  from r 1 2 pg 3 4 ps 5 6 show ?thesis by blast
qed

section \<open>Properties of the prediction endpoints\<close>

text \<open>
  Claim C2 as stated promises success for every upload with an allowed name while the leaf
  model is not loaded. The name a/b.png passes the allow-list, but its save path lies in
  a directory below uploads that does not exist: \<open>file.save\<close> raises, the request ends
  with the unhandled fault, and nothing is saved or recorded.
\<close>

theorem predict_leaf_save_fault:
  "leaf_model bare_env = None \<and>
   user_key (sess (member_site member_session)) \<noteq> None \<and>
   files (upload_request ''a/b.png'' ''clear photo'') ''image'' =
     Some \<lparr>filename = ''a/b.png'', content = ''clear photo''\<rparr> \<and>
   allowed_file ''a/b.png'' \<and>
   dirname ''/srv/herballink/uploads/1730000000123_a/b.png'' =
     ''/srv/herballink/uploads/1730000000123_a'' \<and>
   predict_leaf bare_env 1730000000123 1730000000456789
       (upload_request ''a/b.png'' ''clear photo'') (member_site member_session) =
     (Unhandled FileNotFoundError, member_site member_session) \<and>
   scans_collection (member_site member_session) = []"
  by (simp add: predict_leaf_def login_required_def predict_leaf_view_def Let_def
      allowed_file_def rsplit1_def lower_def lower_char_def file_save_def dirname_def
      save_path_example bare_env_def member_site_def site_def member_session_def
      upload_request_def)

text \<open>
  Claim C2, amended. A logged-in POST /predict-leaf with a file whose name passes the
  allow-list, while the leaf model is not loaded: the classifier returns
  \<open>("Unknown", 0.0)\<close>. When \<open>file.save\<close> returns, the response is the 200 JSON with
  that label, "No info" and no diseases, the file is saved and one scan document with
  that result is appended to the scan collection. When \<open>file.save\<close> raises, the
  request ends with that unhandled fault and the state is unchanged.
\<close>

theorem predict_leaf_model_unavailable:
  assumes "leaf_model e = None" and "user_key (sess st) \<noteq> None"
    and "files req ''image'' = Some file" and "allowed_file (filename file)"
  shows "predict_leaf_image e fs p = Inr (''Unknown'', 0) \<and>
         (file_save file (os_path_join (upload_folder e) (save_name ms (filename file))) st = Inr st1
          \<longrightarrow> uploads st1 (os_path_join (upload_folder e) (save_name ms (filename file))) =
                Some (content file) \<and>
              predict_leaf e ms now req st =
                (Json (JObj [(''leaf_name'', JStr ''Unknown''), (''uses'', JStr ''No info''),
                             (''diseases'', JArr []), (''confidence'', JNum 0)]) 200,
                 st1\<lparr>scans_collection := scans_collection st @
                      [[(''_id'', JOid (length (scans_collection st))),
                        (''type'', JStr ''leaf''), (''leaf_name'', JStr ''Unknown''),
                        (''uses'', JStr ''No info''), (''diseases'', JArr []),
                        (''confidence'', JNum 0), (''filename'', JStr (filename file)),
                        (''saved_name'', JStr (save_name ms (filename file))),
                        (''timestamp'', JTime (bson_date now))]]\<rparr>)) \<and>
         (file_save file (os_path_join (upload_folder e) (save_name ms (filename file))) st = Inl err
          \<longrightarrow> predict_leaf e ms now req st = (Unhandled err, st))"
proof (intro conjI impI)
  let ?path = "os_path_join (upload_folder e) (save_name ms (filename file))"
  from assms(4) have ne: "filename file \<noteq> []" by (simp add: allowed_file_def)
  show "predict_leaf_image e fs p = Inr (''Unknown'', 0)"
    using assms(1) by (rule predict_leaf_image_unloaded)
  show "predict_leaf e ms now req st = (Unhandled err, st)"
    if "file_save file ?path st = Inl err"
    using that assms ne
    by (simp add: predict_leaf_def login_required_user predict_leaf_view_def Let_def)
  assume s: "file_save file ?path st = Inr st1"
  then have st1: "st1 = st\<lparr>uploads := (uploads st)(?path \<mapsto> content file)\<rparr>"
    by (rule file_save_returns)
  show "uploads st1 ?path = Some (content file)" by (simp add: st1)
  show "predict_leaf e ms now req st =
          (Json (JObj [(''leaf_name'', JStr ''Unknown''), (''uses'', JStr ''No info''),
                       (''diseases'', JArr []), (''confidence'', JNum 0)]) 200,
           st1\<lparr>scans_collection := scans_collection st @
                [[(''_id'', JOid (length (scans_collection st))),
                  (''type'', JStr ''leaf''), (''leaf_name'', JStr ''Unknown''),
                  (''uses'', JStr ''No info''), (''diseases'', JArr []),
                  (''confidence'', JNum 0), (''filename'', JStr (filename file)),
                  (''saved_name'', JStr (save_name ms (filename file))),
                  (''timestamp'', JTime (bson_date now))]]\<rparr>)"
    using assms ne s
    by (simp add: predict_leaf_def login_required_user predict_leaf_view_def Let_def
        predict_leaf_image_unloaded leaf_info_Unknown insert_one_def bson_doc_def
        leaf_scan_doc_def st1)
qed

text \<open>The upload of leaf.png on a site with no model file.\<close>

theorem predict_leaf_model_unavailable_witness:
  "leaf_model bare_env = None \<and> user_key (sess (member_site member_session)) \<noteq> None \<and>
   files (upload_request ''leaf.png'' ''clear photo'') ''image'' =
     Some \<lparr>filename = ''leaf.png'', content = ''clear photo''\<rparr> \<and>
   allowed_file ''leaf.png'' \<and>
   file_save \<lparr>filename = ''leaf.png'', content = ''clear photo''\<rparr>
       ''/srv/herballink/uploads/1730000000123_leaf.png'' (member_site member_session) =
     Inr ((member_site member_session)
            \<lparr>uploads := [''/srv/herballink/uploads/1730000000123_leaf.png'' \<mapsto> ''clear photo'']\<rparr>) \<and>
   predict_leaf_image bare_env Map.empty ''anywhere'' = Inr (''Unknown'', 0) \<and>
   fst (predict_leaf bare_env 1730000000123 1730000000456789
          (upload_request ''leaf.png'' ''clear photo'') (member_site member_session)) =
     Json (JObj [(''leaf_name'', JStr ''Unknown''), (''uses'', JStr ''No info''),
                 (''diseases'', JArr []), (''confidence'', JNum 0)]) 200 \<and>
   scans_collection (snd (predict_leaf bare_env 1730000000123 1730000000456789
          (upload_request ''leaf.png'' ''clear photo'') (member_site member_session))) =
     [[(''_id'', JOid 0), (''type'', JStr ''leaf''), (''leaf_name'', JStr ''Unknown''),
       (''uses'', JStr ''No info''), (''diseases'', JArr []), (''confidence'', JNum 0),
       (''filename'', JStr ''leaf.png''), (''saved_name'', JStr ''1730000000123_leaf.png''),
       (''timestamp'', JTime 1730000000456000)]] \<and>
   uploads (snd (predict_leaf bare_env 1730000000123 1730000000456789
          (upload_request ''leaf.png'' ''clear photo'') (member_site member_session)))
     ''/srv/herballink/uploads/1730000000123_leaf.png'' = Some ''clear photo''"
proof -
  let ?file = "\<lparr>filename = ''leaf.png'', content = ''clear photo''\<rparr>"
  let ?path = "''/srv/herballink/uploads/1730000000123_leaf.png''"
  let ?st1 = "(member_site member_session)\<lparr>uploads := [?path \<mapsto> ''clear photo'']\<rparr>"
  have s: "save_name 1730000000123 ''leaf.png'' = ''1730000000123_leaf.png''"
    by (simp add: save_name_def str_nat.simps digit_def)
  have j: "os_path_join (upload_folder bare_env) (save_name 1730000000123 (filename ?file)) = ?path"
    by (simp add: save_path_example bare_env_def)
  have a: "allowed_file (filename ?file)"
    by (simp add: allowed_file_def rsplit1_def lower_def lower_char_def)
  have f: "file_save ?file ?path (member_site member_session) = Inr ?st1"
    by (simp add: file_save_def dirname_def member_site_def site_def)
  have l: "leaf_model bare_env = None" by (simp add: bare_env_def)
  have u: "user_key (sess (member_site member_session)) \<noteq> None"
    by (simp add: member_site_def site_def member_session_def)
  have i: "files (upload_request ''leaf.png'' ''clear photo'') ''image'' = Some ?file"
    by (simp add: upload_request_def)
  note inst = predict_leaf_model_unavailable [OF l u i a, of Map.empty "''anywhere''"
      1730000000123 ?st1 1730000000456789 FileNotFoundError]
  have r: "predict_leaf bare_env 1730000000123 1730000000456789
             (upload_request ''leaf.png'' ''clear photo'') (member_site member_session) =
           (Json (JObj [(''leaf_name'', JStr ''Unknown''), (''uses'', JStr ''No info''),
                        (''diseases'', JArr []), (''confidence'', JNum 0)]) 200,
            ?st1\<lparr>scans_collection := scans_collection (member_site member_session) @
                 [[(''_id'', JOid (length (scans_collection (member_site member_session)))),
                   (''type'', JStr ''leaf''), (''leaf_name'', JStr ''Unknown''),
                   (''uses'', JStr ''No info''), (''diseases'', JArr []),
                   (''confidence'', JNum 0), (''filename'', JStr (filename ?file)),
                   (''saved_name'', JStr (save_name 1730000000123 (filename ?file))),
                   (''timestamp'', JTime (bson_date 1730000000456789))]]\<rparr>)"
  proof -
    have "file_save ?file
            (os_path_join (upload_folder bare_env) (save_name 1730000000123 (filename ?file)))
            (member_site member_session) = Inr ?st1"
      unfolding j by (rule f)
    then show ?thesis
      by (rule inst [THEN conjunct2, THEN conjunct1, THEN mp, THEN conjunct2])
  qed
  have p: "predict_leaf_image bare_env Map.empty ''anywhere'' = Inr (''Unknown'', 0)"
    using inst [THEN conjunct1] .
  have b: "bson_date 1730000000456789 = 1730000000456000" by (simp add: bson_date_def)
  have c: "scans_collection (member_site member_session) = []"
    by (simp add: member_site_def site_def)
  have "fst (predict_leaf bare_env 1730000000123 1730000000456789
          (upload_request ''leaf.png'' ''clear photo'') (member_site member_session)) =
     Json (JObj [(''leaf_name'', JStr ''Unknown''), (''uses'', JStr ''No info''),
                 (''diseases'', JArr []), (''confidence'', JNum 0)]) 200"
    and "scans_collection (snd (predict_leaf bare_env 1730000000123 1730000000456789
          (upload_request ''leaf.png'' ''clear photo'') (member_site member_session))) =
     [[(''_id'', JOid 0), (''type'', JStr ''leaf''), (''leaf_name'', JStr ''Unknown''),
       (''uses'', JStr ''No info''), (''diseases'', JArr []), (''confidence'', JNum 0),
       (''filename'', JStr ''leaf.png''), (''saved_name'', JStr ''1730000000123_leaf.png''),
       (''timestamp'', JTime 1730000000456000)]]"
    and "uploads (snd (predict_leaf bare_env 1730000000123 1730000000456789
          (upload_request ''leaf.png'' ''clear photo'') (member_site member_session)))
     ''/srv/herballink/uploads/1730000000123_leaf.png'' = Some ''clear photo''"
    by (simp_all add: r s b c)
  moreover from a have "allowed_file ''leaf.png''" by simp
  ultimately show ?thesis using l u i f p by blast
qed

text \<open>
  Claim C7. A logged-in POST /predict-leaf whose file name is empty or has no allowed
  extension (png, jpg, jpeg in any letter case) is answered with the 400 JSON error
  "invalid file"; the state is unchanged, so no file is saved and no scan is recorded.
\<close>

theorem predict_leaf_rejects_filename:
  assumes "user_key (sess st) \<noteq> None" and "files req ''image'' = Some file"
    and "filename file = [] \<or> \<not> has_allowed_extension (filename file)"
  shows "predict_leaf e ms now req st = (Json (JObj [(''error'', JStr ''invalid file'')]) 400, st)"
  using assms
  by (auto simp add: predict_leaf_def login_required_user predict_leaf_view_def allowed_file_iff)

text \<open>The upload of leaf.txt.\<close>

theorem predict_leaf_rejects_filename_witness:
  "user_key (sess (member_site member_session)) \<noteq> None \<and>
   files (upload_request ''leaf.txt'' ''plain text'') ''image'' =
     Some \<lparr>filename = ''leaf.txt'', content = ''plain text''\<rparr> \<and>
   \<not> has_allowed_extension ''leaf.txt'' \<and>
   predict_leaf loaded_env 1730000000123 1730000000456789
       (upload_request ''leaf.txt'' ''plain text'') (member_site member_session) =
     (Json (JObj [(''error'', JStr ''invalid file'')]) 400, member_site member_session)"
proof -
  have a: "\<not> has_allowed_extension ''leaf.txt''"
    unfolding allowed_file_iff [symmetric]
    by (simp add: allowed_file_def rsplit1_def lower_def lower_char_def)
  show ?thesis
    using predict_leaf_rejects_filename [of "member_site member_session" "upload_request ''leaf.txt'' ''plain text''"
        "\<lparr>filename = ''leaf.txt'', content = ''plain text''\<rparr>" loaded_env
        1730000000123 1730000000456789] a
    by (simp add: member_site_def site_def member_session_def upload_request_def)
qed

text \<open>
  Claim C8 as stated says that /predict appends a scan document whatever file it is sent.
  With the skin model loaded, a text file named notes.txt passes (no check of the name),
  is saved, and then \<open>load_img\<close> raises: the view ends with the unhandled fault and the
  scan collection is as before.
\<close>

theorem predict_skin_fault_skips_record:
  "user_key (sess (member_site member_session)) \<noteq> None \<and>
   files (upload_request ''notes.txt'' ''plain text'') ''image'' =
     Some \<lparr>filename = ''notes.txt'', content = ''plain text''\<rparr> \<and>
   fst (predict_skin loaded_env 1730000000123 1730000000456789
          (upload_request ''notes.txt'' ''plain text'') (member_site member_session)) =
     Unhandled UnidentifiedImageError \<and>
   scans_collection (snd (predict_skin loaded_env 1730000000123 1730000000456789
          (upload_request ''notes.txt'' ''plain text'') (member_site member_session))) =
     scans_collection (member_site member_session) \<and>
   uploads (snd (predict_skin loaded_env 1730000000123 1730000000456789
          (upload_request ''notes.txt'' ''plain text'') (member_site member_session)))
     ''/srv/herballink/uploads/1730000000123_notes.txt'' = Some ''plain text''"
  by (simp add: predict_skin_def login_required_def predict_skin_view_def Let_def
      file_save_def dirname_def predict_skin_image_def run_model_def save_path_example
      loaded_env_def four_skin_model_def member_site_def site_def member_session_def
      upload_request_def)

text \<open>
  Claim C8, amended. For every logged-in POST /predict carrying an "image" file, whatever
  its name: no allow-list or empty-name check is made, so the answer is never a validation
  error, and \<open>file.save\<close> is called on the time-prefixed path. When the save raises (as
  for a name with a "/" that points into a directory that does not exist), the fault is
  unhandled and the state is unchanged. When the save returns, the file is stored and
  classified: if the classifier returns, the response is the 200 JSON and one scan
  document is appended; if the classifier raises, the fault is unhandled and nothing is
  appended. The classifier always returns when the skin model or the class list is not
  loaded.
\<close>

theorem predict_skin_no_filename_check:
  assumes "user_key (sess st) \<noteq> None" and "files req ''image'' = Some file"
  shows "(\<forall>body. fst (predict_skin e ms now req st) \<noteq> Json body 400) \<and>
         (file_save file (os_path_join (upload_folder e) (save_name ms (filename file))) st = Inl err
          \<longrightarrow> predict_skin e ms now req st = (Unhandled err, st)) \<and>
         (file_save file (os_path_join (upload_folder e) (save_name ms (filename file))) st = Inr st1
          \<longrightarrow> uploads st1 (os_path_join (upload_folder e) (save_name ms (filename file))) =
                Some (content file) \<and>
              (predict_skin_image e (uploads st1)
                 (os_path_join (upload_folder e) (save_name ms (filename file))) = Inr (cls, conf)
               \<longrightarrow> predict_skin e ms now req st =
                    (Json (JObj [(''predicted_class'', JStr cls), (''confidence'', JNum conf),
                                 (''recommendation'',
                                  JStr (case map_of recommendations cls of
                                          Some r \<Rightarrow> r | None \<Rightarrow> ''No recommendation''))]) 200,
                     st1\<lparr>scans_collection := scans_collection st @
                          [[(''_id'', JOid (length (scans_collection st))),
                            (''type'', JStr ''skin''), (''predicted_class'', JStr cls),
                            (''confidence'', JNum conf), (''filename'', JStr (filename file)),
                            (''saved_name'', JStr (save_name ms (filename file))),
                            (''timestamp'', JTime (bson_date now))]]\<rparr>)) \<and>
              (predict_skin_image e (uploads st1)
                 (os_path_join (upload_folder e) (save_name ms (filename file))) = Inl err'
               \<longrightarrow> predict_skin e ms now req st = (Unhandled err', st1)) \<and>
              (skin_model e = None \<or> disease_classes e = []
               \<longrightarrow> predict_skin_image e (uploads st1)
                     (os_path_join (upload_folder e) (save_name ms (filename file))) =
                    Inr (''unknown'', 0)))"
proof -
  let ?path = "os_path_join (upload_folder e) (save_name ms (filename file))"
  have v: "predict_skin e ms now req st = predict_skin_view e ms now req st"
    using assms(1) by (simp add: predict_skin_def login_required_user)
  have never: "fst (predict_skin e ms now req st) \<noteq> Json body 400" for body
    using assms(2)
    by (simp add: v predict_skin_view_def Let_def split: sum.splits prod.splits)
  have raise: "predict_skin e ms now req st = (Unhandled err, st)"
    if "file_save file ?path st = Inl err"
    using that assms(2) by (simp add: v predict_skin_view_def Let_def)
  have saved: "uploads st1 ?path = Some (content file)"
    if "file_save file ?path st = Inr st1"
    using file_save_returns [OF that] by simp
  have coll: "scans_collection st1 = scans_collection st"
    if "file_save file ?path st = Inr st1"
    using file_save_returns [OF that] by simp
  have ok: "predict_skin e ms now req st =
              (Json (JObj [(''predicted_class'', JStr cls), (''confidence'', JNum conf),
                           (''recommendation'',
                            JStr (case map_of recommendations cls of
                                    Some r \<Rightarrow> r | None \<Rightarrow> ''No recommendation''))]) 200,
               st1\<lparr>scans_collection := scans_collection st @
                    [[(''_id'', JOid (length (scans_collection st))),
                      (''type'', JStr ''skin''), (''predicted_class'', JStr cls),
                      (''confidence'', JNum conf), (''filename'', JStr (filename file)),
                      (''saved_name'', JStr (save_name ms (filename file))),
                      (''timestamp'', JTime (bson_date now))]]\<rparr>)"
    if "file_save file ?path st = Inr st1"
      and "predict_skin_image e (uploads st1) ?path = Inr (cls, conf)"
    using that assms(2) coll [OF that(1)]
    by (simp add: v predict_skin_view_def Let_def insert_one_def bson_doc_def skin_scan_doc_def)
  have fault: "predict_skin e ms now req st = (Unhandled err', st1)"
    if "file_save file ?path st = Inr st1"
      and "predict_skin_image e (uploads st1) ?path = Inl err'"
    using that assms(2) by (simp add: v predict_skin_view_def Let_def)
  have unloaded: "predict_skin_image e (uploads st1) ?path = Inr (''unknown'', 0)"
    if "skin_model e = None \<or> disease_classes e = []"
    using that by (rule predict_skin_image_unloaded)
  from never raise saved ok fault unloaded show ?thesis by blast
qed

text \<open>A clear photo uploaded under the name notes.txt, which the allow-list refuses.\<close>

theorem predict_skin_no_filename_check_witness:
  "user_key (sess (member_site member_session)) \<noteq> None \<and>
   files (upload_request ''notes.txt'' ''clear photo'') ''image'' =
     Some \<lparr>filename = ''notes.txt'', content = ''clear photo''\<rparr> \<and>
   \<not> allowed_file ''notes.txt'' \<and>
   file_save \<lparr>filename = ''notes.txt'', content = ''clear photo''\<rparr>
       ''/srv/herballink/uploads/1730000000123_notes.txt'' (member_site member_session) =
     Inr ((member_site member_session)
            \<lparr>uploads := [''/srv/herballink/uploads/1730000000123_notes.txt'' \<mapsto> ''clear photo'']\<rparr>) \<and>
   fst (predict_skin loaded_env 1730000000123 1730000000456789
          (upload_request ''notes.txt'' ''clear photo'') (member_site member_session)) =
     Json (JObj [(''predicted_class'', JStr ''eczema''), (''confidence'', JNum (5/8)),
                 (''recommendation'', JStr ''Aloe vera and neem leaves help calm itching...'')]) 200 \<and>
   scans_collection (snd (predict_skin loaded_env 1730000000123 1730000000456789
          (upload_request ''notes.txt'' ''clear photo'') (member_site member_session))) =
     [[(''_id'', JOid 0), (''type'', JStr ''skin''), (''predicted_class'', JStr ''eczema''),
       (''confidence'', JNum (5/8)), (''filename'', JStr ''notes.txt''),
       (''saved_name'', JStr ''1730000000123_notes.txt''),
       (''timestamp'', JTime 1730000000456000)]] \<and>
   uploads (snd (predict_skin loaded_env 1730000000123 1730000000456789
          (upload_request ''notes.txt'' ''clear photo'') (member_site member_session)))
     ''/srv/herballink/uploads/1730000000123_notes.txt'' = Some ''clear photo''"
proof -
  let ?file = "\<lparr>filename = ''notes.txt'', content = ''clear photo''\<rparr>"
  let ?path = "''/srv/herballink/uploads/1730000000123_notes.txt''"
  let ?st1 = "(member_site member_session)\<lparr>uploads := [?path \<mapsto> ''clear photo'']\<rparr>"
  have s: "save_name 1730000000123 ''notes.txt'' = ''1730000000123_notes.txt''"
    by (simp add: save_name_def str_nat.simps digit_def)
  have j: "os_path_join (upload_folder loaded_env) (save_name 1730000000123 (filename ?file)) = ?path"
    by (simp add: save_path_example loaded_env_def)
  have n: "\<not> allowed_file ''notes.txt''"
    by (simp add: allowed_file_def rsplit1_def lower_def lower_char_def)
  have f: "file_save ?file ?path (member_site member_session) = Inr ?st1"
    by (simp add: file_save_def dirname_def member_site_def site_def)
  have u: "user_key (sess (member_site member_session)) \<noteq> None"
    by (simp add: member_site_def site_def member_session_def)
  have i: "files (upload_request ''notes.txt'' ''clear photo'') ''image'' = Some ?file"
    by (simp add: upload_request_def)
  have p: "predict_skin_image loaded_env (uploads ?st1) ?path = Inr (''eczema'', 5/8)"
    by (simp add: predict_skin_image_def run_model_def np_argmax_def np_max_def
        loaded_env_def four_skin_model_def)
  note inst = predict_skin_no_filename_check [OF u i, of loaded_env 1730000000123
      1730000000456789 FileNotFoundError ?st1 "''eczema''" "5/8" UnidentifiedImageError]
  have r: "predict_skin loaded_env 1730000000123 1730000000456789
             (upload_request ''notes.txt'' ''clear photo'') (member_site member_session) =
           (Json (JObj [(''predicted_class'', JStr ''eczema''), (''confidence'', JNum (5/8)),
                        (''recommendation'',
                         JStr (case map_of recommendations ''eczema'' of
                                 Some r \<Rightarrow> r | None \<Rightarrow> ''No recommendation''))]) 200,
            ?st1\<lparr>scans_collection := scans_collection (member_site member_session) @
                 [[(''_id'', JOid (length (scans_collection (member_site member_session)))),
                   (''type'', JStr ''skin''), (''predicted_class'', JStr ''eczema''),
                   (''confidence'', JNum (5/8)), (''filename'', JStr (filename ?file)),
                   (''saved_name'', JStr (save_name 1730000000123 (filename ?file))),
                   (''timestamp'', JTime (bson_date 1730000000456789))]]\<rparr>)"
  proof -
    have f': "file_save ?file
            (os_path_join (upload_folder loaded_env) (save_name 1730000000123 (filename ?file)))
            (member_site member_session) = Inr ?st1"
      unfolding j by (rule f)
    have p': "predict_skin_image loaded_env (uploads ?st1)
            (os_path_join (upload_folder loaded_env) (save_name 1730000000123 (filename ?file))) =
          Inr (''eczema'', 5/8)"
      unfolding j by (rule p)
    from p' show ?thesis
      by (rule inst [THEN conjunct2, THEN conjunct2, THEN mp, OF f', THEN conjunct2,
            THEN conjunct1, THEN mp])
  qed
  have b: "bson_date 1730000000456789 = 1730000000456000" by (simp add: bson_date_def)
  have c: "scans_collection (member_site member_session) = []"
    by (simp add: member_site_def site_def)
  have "fst (predict_skin loaded_env 1730000000123 1730000000456789
          (upload_request ''notes.txt'' ''clear photo'') (member_site member_session)) =
     Json (JObj [(''predicted_class'', JStr ''eczema''), (''confidence'', JNum (5/8)),
                 (''recommendation'', JStr ''Aloe vera and neem leaves help calm itching...'')]) 200"
    and "scans_collection (snd (predict_skin loaded_env 1730000000123 1730000000456789
          (upload_request ''notes.txt'' ''clear photo'') (member_site member_session))) =
     [[(''_id'', JOid 0), (''type'', JStr ''skin''), (''predicted_class'', JStr ''eczema''),
       (''confidence'', JNum (5/8)), (''filename'', JStr ''notes.txt''),
       (''saved_name'', JStr ''1730000000123_notes.txt''),
       (''timestamp'', JTime 1730000000456000)]]"
    and "uploads (snd (predict_skin loaded_env 1730000000123 1730000000456789
          (upload_request ''notes.txt'' ''clear photo'') (member_site member_session)))
     ''/srv/herballink/uploads/1730000000123_notes.txt'' = Some ''clear photo''"
    by (simp_all add: r s b c recommendations_def)
  with u i n f show ?thesis by blast
qed

text \<open>
  Claim C9. A logged-in POST /predict without an "image" part gets the 200 JSON
  \<open>{"predicted_class": "No image", "confidence": 0.0, "recommendation": "N/A"}\<close> and the
  state is unchanged; the same request to /predict-leaf gets the 400 JSON error "no file".
\<close>

theorem missing_image_part:
  assumes "user_key (sess st) \<noteq> None" and "files req ''image'' = None"
  shows "predict_skin e ms now req st =
           (Json (JObj [(''predicted_class'', JStr ''No image''), (''confidence'', JNum 0),
                        (''recommendation'', JStr ''N/A'')]) 200, st) \<and>
         predict_leaf e ms now req st = (Json (JObj [(''error'', JStr ''no file'')]) 400, st)"
  using assms
  by (simp add: predict_skin_def predict_leaf_def login_required_user predict_skin_view_def
      predict_leaf_view_def)

text \<open>A POST with no file part.\<close>

theorem missing_image_part_witness:
  "user_key (sess (member_site member_session)) \<noteq> None \<and> files bare_request ''image'' = None \<and>
   predict_skin loaded_env 1730000000123 1730000000456789 bare_request (member_site member_session) =
     (Json (JObj [(''predicted_class'', JStr ''No image''), (''confidence'', JNum 0),
                  (''recommendation'', JStr ''N/A'')]) 200, member_site member_session) \<and>
   predict_leaf loaded_env 1730000000123 1730000000456789 bare_request (member_site member_session) =
     (Json (JObj [(''error'', JStr ''no file'')]) 400, member_site member_session)"
  using missing_image_part [of "member_site member_session" bare_request loaded_env 1730000000123 1730000000456789]
  by (simp add: member_site_def site_def member_session_def bare_request_def)

section \<open>Properties of the scan history\<close>

text \<open>A collection stored in ascending order of distinct dates is returned reversed.\<close>

lemma sort_desc_ascending:
  assumes "sorted (map f xs)" and "inj_on f (set xs)"
  shows "sort_desc f xs = rev xs"
proof -
  have "sort_key f (rev xs) = xs"
    by (rule sort_key_inj_key_eq) (use assms in simp_all)
  then show ?thesis by (simp add: sort_desc_def)
qed

lemma timestamp_key_nth_scan: "timestamp_key (nth_scan i) = Some (1000 * (1730000000000 + i))"
  by (simp add: nth_scan_def nth_reply_def skin_scan_doc_def timestamp_key_def)

lemma without_id_nth_scan: "without_id (nth_scan i) = nth_reply i"
  by (simp add: nth_scan_def nth_reply_def skin_scan_doc_def without_id_def)

lemma busy_site_reply:
  "find_sort_limit (map nth_scan [0..<203]) 200 = map nth_reply (rev [3..<203])"
proof -
  let ?coll = "map nth_scan [0..<203]"
  have "sorted_wrt (\<lambda>i j. timestamp_key (nth_scan i) \<le> timestamp_key (nth_scan j)) [0..<203]"
    by (rule sorted_wrt_mono_rel [of _ "(\<le>)"]) (simp_all add: timestamp_key_nth_scan)
  then have s: "sorted (map timestamp_key ?coll)"
    by (simp add: sorted_map sorted_wrt_map)
  have i: "inj_on timestamp_key (set ?coll)"
    by (auto simp add: inj_on_def timestamp_key_nth_scan)
  have "take 200 (rev ?coll) = rev (drop 3 ?coll)"
    by (simp add: take_rev)
  also have "\<dots> = rev (map nth_scan [3..<203])"
    by (simp add: drop_map)
  finally have "take 200 (sort_desc timestamp_key ?coll) = map nth_scan (rev [3..<203])"
    by (simp add: sort_desc_ascending [OF s i] rev_map)
  then show ?thesis
    by (simp add: find_sort_limit_def without_id_nth_scan)
qed

text \<open>
  Claim C6. For a logged-in user GET /scans returns a JSON array of the most recent scan
  documents, at most 200 (all of them when the collection holds no more), in
  non-increasing order of timestamp: every document left out is at most as recent as
  every document returned. The documents are drawn from the whole scan collection, and
  the answer does not depend on who is logged in.
\<close>

theorem get_scans_recent_200:
  assumes "user_key (sess st) \<noteq> None"
  shows "get_scans st = (Json (JArr (map JObj (find_sort_limit (scans_collection st) 200))) 200, st) \<and>
         length (find_sort_limit (scans_collection st) 200) \<le> 200 \<and>
         length (find_sort_limit (scans_collection st) 200) = min (length (scans_collection st)) 200 \<and>
         sorted_wrt (\<lambda>a b. timestamp_key b \<le> timestamp_key a)
           (find_sort_limit (scans_collection st) 200) \<and>
         mset (find_sort_limit (scans_collection st) 200) \<subseteq># mset (map without_id (scans_collection st)) \<and>
         (\<forall>d r. d \<in># mset (map without_id (scans_collection st)) -
                      mset (find_sort_limit (scans_collection st) 200) \<and>
                r \<in> set (find_sort_limit (scans_collection st) 200)
                \<longrightarrow> timestamp_key d \<le> timestamp_key r) \<and>
         (length (scans_collection st) \<le> 200 \<longrightarrow>
            mset (find_sort_limit (scans_collection st) 200) = mset (map without_id (scans_collection st))) \<and>
         (user_key (sess st2) \<noteq> None \<and> scans_collection st2 = scans_collection st \<longrightarrow>
            fst (get_scans st2) = fst (get_scans st))"
proof (intro conjI impI allI)
  show "get_scans st = (Json (JArr (map JObj (find_sort_limit (scans_collection st) 200))) 200, st)"
    using assms by (simp add: get_scans_def login_required_user get_scans_view_def)
  show "length (find_sort_limit (scans_collection st) 200) \<le> 200"
    by (simp add: find_sort_limit_length)
  show "length (find_sort_limit (scans_collection st) 200) = min (length (scans_collection st)) 200"
    by (rule find_sort_limit_length)
  show "sorted_wrt (\<lambda>a b. timestamp_key b \<le> timestamp_key a)
          (find_sort_limit (scans_collection st) 200)"
    by (rule find_sort_limit_sorted)
  show "mset (find_sort_limit (scans_collection st) 200) \<subseteq># mset (map without_id (scans_collection st))"
    by (rule find_sort_limit_subset)
  show "timestamp_key d \<le> timestamp_key r"
    if "d \<in># mset (map without_id (scans_collection st)) -
               mset (find_sort_limit (scans_collection st) 200) \<and>
        r \<in> set (find_sort_limit (scans_collection st) 200)" for d r
    using that by (blast intro: find_sort_limit_most_recent)
  show "mset (find_sort_limit (scans_collection st) 200) = mset (map without_id (scans_collection st))"
    if "length (scans_collection st) \<le> 200"
    using that by (rule find_sort_limit_all)
  show "fst (get_scans st2) = fst (get_scans st)"
    if "user_key (sess st2) \<noteq> None \<and> scans_collection st2 = scans_collection st"
    using that assms by (simp add: get_scans_def login_required_user get_scans_view_def)
qed

text \<open>A collection of 203 scans, read by two different members: the reply holds the scans
  202 down to 3, and the three oldest are left out.\<close>

theorem get_scans_recent_200_witness:
  "user_key (sess (busy_site member_session)) \<noteq> None \<and>
   length (scans_collection (busy_site member_session)) = 203 \<and>
   get_scans (busy_site member_session) =
     (Json (JArr (map JObj (map nth_reply (rev [3..<203])))) 200, busy_site member_session) \<and>
   length (map nth_reply (rev [3..<203])) = 200 \<and>
   hd (map nth_reply (rev [3..<203])) = nth_reply 202 \<and>
   last (map nth_reply (rev [3..<203])) = nth_reply 3 \<and>
   user_key (sess (busy_site other_session)) \<noteq> None \<and>
   fst (get_scans (busy_site other_session)) = fst (get_scans (busy_site member_session))"
proof -
  have c: "scans_collection (busy_site member_session) = map nth_scan [0..<203]"
    "scans_collection (busy_site other_session) = map nth_scan [0..<203]"
    by (simp_all add: busy_site_def site_def)
  have u: "user_key (sess (busy_site member_session)) \<noteq> None"
    "user_key (sess (busy_site other_session)) \<noteq> None"
    by (simp_all add: busy_site_def site_def member_session_def other_session_def)
  note inst = get_scans_recent_200 [OF u(1), of "busy_site other_session"]
  have g: "get_scans (busy_site member_session) =
     (Json (JArr (map JObj (map nth_reply (rev [3..<203])))) 200, busy_site member_session)"
    using inst [THEN conjunct1] by (simp add: c busy_site_reply)
  have o: "fst (get_scans (busy_site other_session)) = fst (get_scans (busy_site member_session))"
    using inst u(2) by (simp add: c)
  have h: "hd (map nth_reply (rev [3..<203])) = nth_reply 202"
    by (simp add: hd_map hd_rev)
  have l: "last (map nth_reply (rev [3..<203])) = nth_reply 3"
    by (simp add: last_map last_rev)
  have n: "length (map nth_reply (rev [3..<203])) = 200" by simp
  from u c(1) g o h l n show ?thesis by simp
qed

end
